theory Spec2Isabelle
  imports Complex_Main "HOL-Library.DAList" "HOL-Library.Sublist" "HOL-Library.Multiset"
begin

section \<open>Data model of the location generator\<close>

text \<open>
  The development embeds \<^verbatim>\<open>LocationGenerator\<close> (the class that generates static
  containers and loose loot for a map). JavaScript numbers are modelled by rationals
  (\<^typ>\<open>rat\<close>) where the source computes with probabilities and multipliers, and by integers
  where it counts. Objects used as dictionaries that the source iterates are association
  lists with distinct keys (\<^typ>\<open>('k, 'v) alist\<close>): assigning to a new key appends it,
  assigning to an existing key keeps its place, as for string keys of a JavaScript object.
  Dictionaries that the source only reads by key are maps.
\<close>

record Item =
  item_id :: string
  tpl :: string
  parentId :: "string option"
  slotId :: "string option"
  location :: "(int \<times> int \<times> int) option"
  upd :: "int option"

record SpawnpointTemplate =
  Id' :: string
  IsAlwaysSpawn :: bool
  Root :: string
  Items :: "Item list"

record IStaticContainerData =
  probability :: rat
  template :: SpawnpointTemplate

record SpawnpointsForced = IStaticContainerData +
  locationId :: string

record ItemDistribution =
  composedKey :: string
  relativeProbability :: rat

record Spawnpoint = SpawnpointsForced +
  itemDistribution :: "ItemDistribution list"

record IStaticForcedProps =
  containerId :: string
  itemTpl :: string

record ItemCountDistribution =
  count' :: rat
  countProbability :: rat

record StaticItemDistribution =
  lootTpl :: string
  lootProbability :: rat

record IStaticLootDetails =
  itemcountDistribution :: "ItemCountDistribution list"
  staticItemDistribution :: "StaticItemDistribution list"

record IStaticContainerDetails =
  staticWeapons :: "SpawnpointTemplate list option"
  staticContainers :: "IStaticContainerData list option"
  staticForced :: "IStaticForcedProps list option"

record IContainerMinMax =
  minContainers :: rat
  maxContainers :: rat

record IStaticContainer =
  containersGroups :: "(string, IContainerMinMax) alist"
  containers :: "string \<rightharpoonup> string"

record IContainerGroupCount =
  containerIdsWithProbability :: "(string, rat) alist"
  chosenCount :: int

record ILocationBase =
  Name :: string
  locId :: string

record SpawnpointCount =
  mean :: rat
  std :: rat

record ILooseLoot =
  spawnpointCount :: SpawnpointCount
  spawnpointsForced :: "SpawnpointsForced list"
  spawnpoints :: "Spawnpoint list"

record GridProps =
  cellsH :: nat
  cellsV :: nat

record Props =
  Width :: int
  Height :: int
  StackMinRandom :: int
  StackMaxRandom :: int
  Grids :: "GridProps list"
  ammoCaliber :: "string option"

record ITemplateItem =
  props :: Props

record IPreset =
  preset_id :: string
  preset_name :: string
  preset_items :: "Item list"

record IContainerItem =
  items :: "Item list"
  width :: int
  height :: int

record FindSlotResult =
  success :: bool
  slot_x :: int
  slot_y :: int
  rotation :: bool

datatype BaseClasses = MONEY | AMMO | AMMO_BOX | MAGAZINE | WEAPON

type_synonym IStaticAmmoDetails = "string \<times> rat"
type_synonym StaticAmmoDist = "(string \<times> IStaticAmmoDetails list) list"

subsection \<open>Configuration and database tables\<close>

record ContainerRandomisationSettings =
  enabled :: bool
  maps' :: "string \<rightharpoonup> bool"
  containerTypesToNotRandomise :: "string list"
  containerGroupMinSizeMultiplier :: rat
  containerGroupMaxSizeMultiplier :: rat

record ILocationConfig =
  containerRandomisationSettings :: ContainerRandomisationSettings
  looseLootMultiplier :: "string \<rightharpoonup> rat"
  staticLootMultiplier :: "string \<rightharpoonup> rat"
  looseLootBlacklist :: "string \<rightharpoonup> string list"
  forcedLootSingleSpawnById :: "string \<rightharpoonup> string list"
  allowDuplicateItemsInStaticContainers :: bool
  fitLootIntoContainerAttempts :: int
  minFillLooseMagazinePercent :: rat
  minFillStaticMagazinePercent :: rat

record Database =
  lootStaticContainers :: "string \<rightharpoonup> IStaticContainerDetails"
  lootStaticLoot :: "string \<rightharpoonup> IStaticLootDetails"
  locationStatics :: "string \<rightharpoonup> IStaticContainer"

subsection \<open>Errors, log and state\<close>

text \<open>
  An exception of the source is a value: \<open>TypeError\<close> is what JavaScript raises when a
  property of \<^verbatim>\<open>undefined\<close> is read, \<open>HelperError\<close> is an error thrown by a helper the
  source calls inside \<^verbatim>\<open>try\<close>, \<open>CriticalError\<close> is the error the source creates itself.
\<close>

datatype error = TypeError | HelperError string | CriticalError

text \<open>One constructor per logging call of the source, with the values it interpolates.\<close>

datatype log_entry =
    ErrNoStaticWeaponData string
  | ErrNoStaticContainerData string
  | ErrNoForcedStaticData string
  | SuccessGuaranteedAdded nat
  | DebugRandomisationDisabled nat string
  | DebugGroupNoContainers string
  | DebugContainerNotFound
  | SuccessContainersGenerated int
  | DebugGroupShortfall string int nat
  | ErrContainerNotInStatics string
  | DebugContainerAlwaysSpawns string string
  | DebugIgnoringLooseLoot string
  | DebugSpawnPointCount "int option" nat string
  | DebugUnableToAdjustLoot string string
  | WarnPresetNotFound string string string "string option"
  | DebugNoPresetFound string
  | ErrMissingRootItem string "string option"
  | ErrUnableToReparent string "string option"

datatype level = Error | Warning | Debug | Success

fun severity :: "log_entry \<Rightarrow> level" where
  "severity (ErrNoStaticWeaponData _) = Error"
| "severity (ErrNoStaticContainerData _) = Error"
| "severity (ErrNoForcedStaticData _) = Error"
| "severity (SuccessGuaranteedAdded _) = Success"
| "severity (DebugRandomisationDisabled _ _) = Debug"
| "severity (DebugGroupNoContainers _) = Debug"
| "severity DebugContainerNotFound = Debug"
| "severity (SuccessContainersGenerated _) = Success"
| "severity (DebugGroupShortfall _ _ _) = Debug"
| "severity (ErrContainerNotInStatics _) = Error"
| "severity (DebugContainerAlwaysSpawns _ _) = Debug"
| "severity (DebugIgnoringLooseLoot _) = Debug"
| "severity (DebugSpawnPointCount _ _ _) = Debug"
| "severity (DebugUnableToAdjustLoot _ _) = Debug"
| "severity (WarnPresetNotFound _ _ _ _) = Warning"
| "severity (DebugNoPresetFound _) = Debug"
| "severity (ErrMissingRootItem _ _) = Error"
| "severity (ErrUnableToReparent _ _) = Error"

text \<open>
  The state a generation pass threads through its calls: the state of the random number
  and object id sources (of any type \<open>'r\<close>), and the log written so far.
\<close>

record 'r world =
  rnd :: 'r
  logs :: "log_entry list"

type_synonym ('r, 'a) M = "'r world \<Rightarrow> (error + 'a) \<times> 'r world"

definition return :: "'a \<Rightarrow> ('r, 'a) M" where
  "return x w = (Inr x, w)"

definition throw :: "error \<Rightarrow> ('r, 'a) M" where
  "throw e w = (Inl e, w)"

definition bnd :: "('r, 'a) M \<Rightarrow> ('a \<Rightarrow> ('r, 'b) M) \<Rightarrow> ('r, 'b) M" where
  "bnd m f w = (case m w of (Inl e, w') \<Rightarrow> (Inl e, w') | (Inr x, w') \<Rightarrow> f x w')"

definition logger :: "log_entry \<Rightarrow> ('r, unit) M" where
  "logger l w = (Inr (), w\<lparr>logs := logs w @ [l]\<rparr>)"

definition random :: "('r \<Rightarrow> 'a \<times> 'r) \<Rightarrow> ('r, 'a) M" where
  "random f w = (case f (rnd w) of (x, r') \<Rightarrow> (Inr x, w\<lparr>rnd := r'\<rparr>))"

definition randomE :: "('r \<Rightarrow> (error + 'a) \<times> 'r) \<Rightarrow> ('r, 'a) M" where
  "randomE f w = (case f (rnd w) of (x, r') \<Rightarrow> (x, w\<lparr>rnd := r'\<rparr>))"

definition catch :: "('r, 'a) M \<Rightarrow> (error \<Rightarrow> ('r, 'a) M) \<Rightarrow> ('r, 'a) M" where
  "catch m h w = (case m w of (Inl e, w') \<Rightarrow> h e w' | (Inr x, w') \<Rightarrow> (Inr x, w'))"

text \<open>\<^verbatim>\<open>for (const x of xs)\<close> over a list, the loop body returning the new accumulator.\<close>

fun forEach :: "'a list \<Rightarrow> 'b \<Rightarrow> ('a \<Rightarrow> 'b \<Rightarrow> ('r, 'b) M) \<Rightarrow> ('r, 'b) M" where
  "forEach [] acc body = return acc"
| "forEach (x # xs) acc body = bnd (body x acc) (\<lambda>acc'. forEach xs acc' body)"

text \<open>\<^verbatim>\<open>xs.filter(p)\<close> where evaluating the predicate may raise.\<close>

fun filterE :: "('a \<Rightarrow> error + bool) \<Rightarrow> 'a list \<Rightarrow> error + 'a list" where
  "filterE p [] = Inr []"
| "filterE p (x # xs) =
     (case p x of
        Inl e \<Rightarrow> Inl e
      | Inr b \<Rightarrow> (case filterE p xs of
                   Inl e \<Rightarrow> Inl e
                 | Inr ys \<Rightarrow> Inr (if b then x # ys else ys)))"

definition lift :: "error + 'a \<Rightarrow> ('r, 'a) M" where
  "lift v w = (v, w)"


section \<open>Collaborators outside the generator\<close>

text \<open>
  \<^verbatim>\<open>Math.round\<close> rounds half up. A count the source computes from a value that may be
  \<^verbatim>\<open>undefined\<close> is \<open>NaN\<close>; an optional argument the source leaves out is \<open>Omitted\<close>.
\<close>

definition Math_round :: "rat \<Rightarrow> int" where
  "Math_round x = \<lfloor>x + 1 / 2\<rfloor>"

datatype jsint = NaN | JSInt int

datatype 'a arg = Omitted | Arg 'a

text \<open>
  The helpers the generator receives by injection (random numbers, object ids, the weighted
  draw, the item template lookup, the preset lookup, the grid allocator, the seasonal event
  service) and the currency ids of the \<^verbatim>\<open>Money\<close> enumeration are parameters of the
  model: a theorem about the generator holds for every behaviour of theirs. Helpers that
  consume random numbers or create ids read and return the state \<open>'r\<close>. A helper that changes
  an array it is given returns the new array. Only \<^verbatim>\<open>reparentPresets\<close>, which the source
  calls inside \<^verbatim>\<open>try\<close>, may fail; the draw sees the key and weight of each entry.
\<close>

record 'r env =
  generate :: "'r \<Rightarrow> string \<times> 'r"
  getInt :: "int \<Rightarrow> int \<Rightarrow> 'r \<Rightarrow> int \<times> 'r"
  getChance100 :: "rat \<Rightarrow> 'r \<Rightarrow> bool \<times> 'r"
  randn :: "rat \<Rightarrow> rat \<Rightarrow> 'r \<Rightarrow> rat \<times> 'r"
  draw :: "(string \<times> rat) list \<Rightarrow> jsint arg \<Rightarrow> bool arg \<Rightarrow> string list arg
            \<Rightarrow> 'r \<Rightarrow> string list \<times> 'r"
  drawNumber :: "(rat \<times> rat) list \<Rightarrow> jsint arg \<Rightarrow> bool arg \<Rightarrow> rat list arg
            \<Rightarrow> 'r \<Rightarrow> rat list \<times> 'r"
  getItem :: "string \<Rightarrow> ITemplateItem option"
  isOfBaseclass :: "string \<Rightarrow> BaseClasses \<Rightarrow> bool"
  addCartridgesToAmmoBox :: "Item list \<Rightarrow> ITemplateItem option \<Rightarrow> 'r \<Rightarrow> Item list \<times> 'r"
  fillMagazineWithRandomCartridge ::
    "Item list \<Rightarrow> ITemplateItem option \<Rightarrow> StaticAmmoDist \<Rightarrow> string option \<Rightarrow> rat arg
      \<Rightarrow> 'r \<Rightarrow> Item list \<times> 'r"
  findAndReturnChildrenAsItems :: "Item list \<Rightarrow> string \<Rightarrow> Item list"
  getItemSize :: "Item list \<Rightarrow> string \<Rightarrow> int \<times> int"
  getDefaultPreset :: "string \<Rightarrow> IPreset option"
  reparentPresets :: "Item option \<Rightarrow> Item list \<Rightarrow> 'r \<Rightarrow> (error + Item list) \<times> 'r"
  seasonalEventEnabled :: bool
  getAllSeasonalEventItems :: "string list"
  findSlotForItem :: "int list list \<Rightarrow> int \<Rightarrow> int \<Rightarrow> FindSlotResult"
  fillContainerMapWithItem ::
    "int list list \<Rightarrow> int \<Rightarrow> int \<Rightarrow> int \<Rightarrow> int \<Rightarrow> bool \<Rightarrow> int list list"
  ROUBLES :: string
  DOLLARS :: string
  EUROS :: string

text \<open>\<^verbatim>\<open>String.prototype.toLowerCase\<close>, on the ASCII letters.\<close>

definition lowerChar :: "char \<Rightarrow> char" where
  "lowerChar c =
     (let n = (of_char c :: nat) in if 65 \<le> n \<and> n \<le> 90 then char_of (n + 32) else c)"

definition toLowerCase :: "string \<Rightarrow> string" where
  "toLowerCase s = map lowerChar s"

section \<open>Static containers\<close>

text \<open>\<^verbatim>\<open>x.template.Items[0]._tpl\<close>: reading \<^verbatim>\<open>_tpl\<close> of a missing first item raises.\<close>

definition rootTpl :: "SpawnpointTemplate \<Rightarrow> error + string" where
  "rootTpl t = (case Items t of [] \<Rightarrow> Inl TypeError | i # _ \<Rightarrow> Inr (tpl i))"

definition isRandomisable :: "ILocationConfig \<Rightarrow> IStaticContainerData \<Rightarrow> error + bool" where
  "isRandomisable cfg x =
     (if probability x \<noteq> 1 \<and> \<not> IsAlwaysSpawn (template x) then
        (case rootTpl (template x) of
           Inl e \<Rightarrow> Inl e
         | Inr t \<Rightarrow>
             Inr (t \<notin> set (containerTypesToNotRandomise (containerRandomisationSettings cfg))))
      else Inr False)"

definition isGuaranteed :: "ILocationConfig \<Rightarrow> IStaticContainerData \<Rightarrow> error + bool" where
  "isGuaranteed cfg x =
     (if probability x = 1 \<or> IsAlwaysSpawn (template x) then Inr True
      else (case rootTpl (template x) of
              Inl e \<Rightarrow> Inl e
            | Inr t \<Rightarrow>
                Inr (t \<in> set (containerTypesToNotRandomise (containerRandomisationSettings cfg)))))"

definition getRandomisableContainersOnMap ::
  "ILocationConfig \<Rightarrow> IStaticContainerData list option \<Rightarrow> error + IStaticContainerData list" where
  "getRandomisableContainersOnMap cfg staticContainers' =
     (case staticContainers' of
        None \<Rightarrow> Inl TypeError
      | Some cs \<Rightarrow> filterE (isRandomisable cfg) cs)"

definition getGuaranteedContainers ::
  "ILocationConfig \<Rightarrow> IStaticContainerData list option \<Rightarrow> error + IStaticContainerData list" where
  "getGuaranteedContainers cfg staticContainersOnMap =
     (case staticContainersOnMap of
        None \<Rightarrow> Inl TypeError
      | Some cs \<Rightarrow> filterE (isGuaranteed cfg) cs)"

text \<open>\<^verbatim>\<open>Object.keys\<close> of a dictionary.\<close>

definition keys :: "('k, 'v) alist \<Rightarrow> 'k list" where
  "keys r = map fst (DAList.impl_of r)"

definition getContainersByProbabilty ::
  "'r env \<Rightarrow> string \<Rightarrow> IContainerGroupCount \<Rightarrow> ('r, string list) M" where
  "getContainersByProbabilty env groupId containerData =
     (let containerIds = keys (containerIdsWithProbability containerData) in
      if chosenCount containerData > int (length containerIds) then
        bnd (logger (DebugGroupShortfall groupId (chosenCount containerData) (length containerIds)))
          (\<lambda>_. return containerIds)
      else
        random (draw env (DAList.impl_of (containerIdsWithProbability containerData))
                  (Arg (JSInt (chosenCount containerData))) Omitted Omitted))"

definition getGroupIdToContainerMappings ::
  "'r env \<Rightarrow> ILocationConfig \<Rightarrow> IStaticContainer \<Rightarrow> IStaticContainerData list
     \<Rightarrow> ('r, (string, IContainerGroupCount) alist) M" where
  "getGroupIdToContainerMappings env cfg staticContainerGroupData staticContainersOnMap =
     bnd (forEach (DAList.impl_of (containersGroups staticContainerGroupData)) DAList.empty
            (\<lambda>(groupId, groupData) mapping.
               if DAList.lookup mapping groupId = None then
                 bnd (random (getInt env
                        (Math_round (minContainers groupData *
                           containerGroupMinSizeMultiplier (containerRandomisationSettings cfg)))
                        (Math_round (maxContainers groupData *
                           containerGroupMaxSizeMultiplier (containerRandomisationSettings cfg)))))
                   (\<lambda>n. return (DAList.update groupId
                      \<lparr>containerIdsWithProbability = DAList.empty, chosenCount = n\<rparr> mapping))
               else return mapping))
       (\<lambda>mapping.
          forEach staticContainersOnMap
            (DAList.update [] \<lparr>containerIdsWithProbability = DAList.empty, chosenCount = - 1\<rparr>
               mapping)
            (\<lambda>container mapping.
               case containers staticContainerGroupData (Id' (template container)) of
                 None \<Rightarrow>
                   bnd (logger (ErrContainerNotInStatics (Id' (template container))))
                     (\<lambda>_. return mapping)
               | Some groupId \<Rightarrow>
                   if probability container = 1 then
                     bnd (logger (DebugContainerAlwaysSpawns (Id' (template container)) groupId))
                       (\<lambda>_. return mapping)
                   else
                     (case DAList.lookup mapping groupId of
                        None \<Rightarrow> throw TypeError
                      | Some data \<Rightarrow>
                          return (DAList.update groupId
                            (data\<lparr>containerIdsWithProbability :=
                               DAList.update (Id' (template container)) (probability container)
                                 (containerIdsWithProbability data)\<rparr>) mapping))))"


subsection \<open>Building one item of static loot\<close>

text \<open>
  \<^verbatim>\<open>items.splice(items.indexOf(m), 1, ...ms)\<close> where \<open>m\<close> is the first element that
  satisfies \<open>P\<close>: that element is replaced by the elements of \<open>ms\<close>.
\<close>

definition spliceFirst :: "('a \<Rightarrow> bool) \<Rightarrow> 'a list \<Rightarrow> 'a list \<Rightarrow> 'a list" where
  "spliceFirst P xs ms = takeWhile (\<lambda>x. \<not> P x) xs @ ms @ tl (dropWhile (\<lambda>x. \<not> P x) xs)"

text \<open>\<^verbatim>\<open>if (parentId)\<close>: a string is truthy unless it is missing or empty.\<close>

definition truthy :: "string option \<Rightarrow> bool" where
  "truthy p = (case p of None \<Rightarrow> False | Some s \<Rightarrow> s \<noteq> [])"

definition first :: "'a list \<Rightarrow> 'a option" where
  "first xs = (case xs of [] \<Rightarrow> None | x # _ \<Rightarrow> Some x)"

text \<open>
  The weapon branch of \<^verbatim>\<open>createStaticLootItem\<close>. The test \<^verbatim>\<open>if (!rootItem)\<close> of the
  source reads the first element of an array the function has just created with one
  element, so its branch is never taken and has no counterpart here.
\<close>

definition createStaticWeapon ::
  "'r env \<Rightarrow> string \<Rightarrow> ITemplateItem \<Rightarrow> StaticAmmoDist \<Rightarrow> string option \<Rightarrow> Item
     \<Rightarrow> ('r, IContainerItem) M" where
  "createStaticWeapon env tpl' itemTemplate staticAmmoDist parentId' rootItem =
     bnd (case getDefaultPreset env tpl' of
            Some defaultPreset \<Rightarrow>
              catch (randomE (reparentPresets env (first (preset_items defaultPreset))
                                (preset_items defaultPreset)))
                (\<lambda>err. bnd (logger (WarnPresetNotFound tpl' (preset_id defaultPreset)
                                     (preset_name defaultPreset) parentId'))
                          (\<lambda>_. throw err))
          | None \<Rightarrow> bnd (logger (DebugNoPresetFound tpl')) (\<lambda>_. return []))
       (\<lambda>children.
     bnd (if length children > 0 then
            catch (randomE (reparentPresets env (Some rootItem) children))
              (\<lambda>err. bnd (logger (ErrUnableToReparent tpl' parentId')) (\<lambda>_. throw err))
          else return [rootItem])
       (\<lambda>its.
     bnd (case first (filter (\<lambda>x. slotId x = Some ''mod_magazine'') its) of
            Some magazine \<Rightarrow>
              bnd (random (fillMagazineWithRandomCartridge env [magazine]
                             (getItem env (tpl magazine)) staticAmmoDist
                             (ammoCaliber (props itemTemplate)) Omitted))
                (\<lambda>magazineWithCartridges.
                   return (spliceFirst (\<lambda>x. slotId x = Some ''mod_magazine'') its
                             magazineWithCartridges))
          | None \<Rightarrow> return its)
       (\<lambda>its'.
          let size = getItemSize env its' (item_id rootItem)
          in return \<lparr>items = its', width = fst size, height = snd size\<rparr>)))"

definition createStaticLootItem ::
  "'r env \<Rightarrow> ILocationConfig \<Rightarrow> string \<Rightarrow> StaticAmmoDist \<Rightarrow> string option
     \<Rightarrow> ('r, IContainerItem) M" where
  "createStaticLootItem env cfg tpl' staticAmmoDist parentId' =
     (case getItem env tpl' of
        None \<Rightarrow> throw TypeError
      | Some itemTemplate \<Rightarrow>
          bnd (random (generate env)) (\<lambda>newId.
            let rootItem = \<lparr>item_id = newId, tpl = tpl',
                            parentId = (if truthy parentId' then parentId' else None),
                            slotId = None, location = None, upd = None\<rparr>;
                w = Width (props itemTemplate);
                h = Height (props itemTemplate)
            in
            if isOfBaseclass env tpl' MONEY \<or> isOfBaseclass env tpl' AMMO then
              bnd (random (getInt env (StackMinRandom (props itemTemplate))
                                      (StackMaxRandom (props itemTemplate))))
                (\<lambda>stackCount.
                   return \<lparr>items = [rootItem\<lparr>upd := Some stackCount\<rparr>], width = w, height = h\<rparr>)
            else if isOfBaseclass env tpl' WEAPON then
              createStaticWeapon env tpl' itemTemplate staticAmmoDist parentId' rootItem
            else if isOfBaseclass env tpl' AMMO_BOX then
              bnd (random (addCartridgesToAmmoBox env [rootItem] (Some itemTemplate)))
                (\<lambda>its. return \<lparr>items = its, width = w, height = h\<rparr>)
            else if isOfBaseclass env tpl' MAGAZINE then
              bnd (random (fillMagazineWithRandomCartridge env [rootItem] (Some itemTemplate)
                             staticAmmoDist None
                             (Arg (minFillStaticMagazinePercent cfg / 100))))
                (\<lambda>magazineWithCartridges.
                   return \<lparr>items = magazineWithCartridges, width = w, height = h\<rparr>)
            else return \<lparr>items = [rootItem], width = w, height = h\<rparr>))"

subsection \<open>Filling one container\<close>

definition getContainerMapping :: "'r env \<Rightarrow> string \<Rightarrow> error + int list list" where
  "getContainerMapping env containerTpl =
     (case getItem env containerTpl of
        None \<Rightarrow> Inl TypeError
      | Some containerTemplate \<Rightarrow>
          (case Grids (props containerTemplate) of
             [] \<Rightarrow> Inl TypeError
           | g # _ \<Rightarrow> Inr (replicate (cellsV g) (replicate (cellsH g) 0))))"

definition getStaticLootMultiplerForLocation :: "ILocationConfig \<Rightarrow> string \<Rightarrow> rat option" where
  "getStaticLootMultiplerForLocation cfg loc = staticLootMultiplier cfg loc"

definition getLooseLootMultiplerForLocation :: "ILocationConfig \<Rightarrow> string \<Rightarrow> rat option" where
  "getLooseLootMultiplerForLocation cfg loc = looseLootMultiplier cfg loc"

text \<open>A product with \<^verbatim>\<open>undefined\<close> is \<open>NaN\<close>, and so is its rounding.\<close>

definition roundProduct :: "rat option \<Rightarrow> rat option \<Rightarrow> jsint" where
  "roundProduct a b =
     (case (a, b) of (Some x, Some y) \<Rightarrow> JSInt (Math_round (x * y)) | _ \<Rightarrow> NaN)"

definition getWeightedCountOfContainerItems ::
  "'r env \<Rightarrow> ILocationConfig \<Rightarrow> string \<Rightarrow> (string \<rightharpoonup> IStaticLootDetails) \<Rightarrow> string
     \<Rightarrow> ('r, jsint) M" where
  "getWeightedCountOfContainerItems env cfg containerTypeId staticLootDist locationName =
     (case staticLootDist containerTypeId of
        None \<Rightarrow> throw TypeError
      | Some details \<Rightarrow>
          bnd (random (drawNumber env
                 (map (\<lambda>d. (count' d, countProbability d)) (itemcountDistribution details))
                 Omitted Omitted Omitted))
            (\<lambda>drawn.
               return (roundProduct (getStaticLootMultiplerForLocation cfg locationName)
                         (first drawn))))"

definition getPossibleLootItemsForContainer ::
  "'r env \<Rightarrow> string \<Rightarrow> (string \<rightharpoonup> IStaticLootDetails) \<Rightarrow> error + (string \<times> rat) list" where
  "getPossibleLootItemsForContainer env containerTypeId staticLootDist =
     (case staticLootDist containerTypeId of
        None \<Rightarrow> Inl TypeError
      | Some details \<Rightarrow>
          Inr (map (\<lambda>icd. (lootTpl icd, lootProbability icd))
                 (filter (\<lambda>icd. \<not> (\<not> seasonalEventEnabled env
                                     \<and> lootTpl icd \<in> set (getAllSeasonalEventItems env)))
                    (staticItemDistribution details))))"

text \<open>
  The item keys of one container: the count of items, the pool of the container type and
  the draw from it, with the currency ids as lock list.
\<close>

definition chooseTpls ::
  "'r env \<Rightarrow> ILocationConfig \<Rightarrow> string \<Rightarrow> (string \<rightharpoonup> IStaticLootDetails) \<Rightarrow> string
     \<Rightarrow> IStaticForcedProps list option \<Rightarrow> string \<Rightarrow> ('r, string list \<times> string list) M" where
  "chooseTpls env cfg containerTpl staticLootDist locationName staticForced' containerId' =
     bnd (getWeightedCountOfContainerItems env cfg containerTpl staticLootDist locationName)
       (\<lambda>itemCountToAdd.
     bnd (lift (getPossibleLootItemsForContainer env containerTpl staticLootDist))
       (\<lambda>containerLootPool.
     bnd (case staticForced' of
            None \<Rightarrow> throw TypeError
          | Some sf \<Rightarrow> return (map itemTpl (filter (\<lambda>x. containerId x = containerId') sf)))
       (\<lambda>tplsForced.
     bnd (random (draw env containerLootPool (Arg itemCountToAdd)
                    (Arg (allowDuplicateItemsInStaticContainers cfg))
                    (Arg [ROUBLES env, DOLLARS env, EUROS env])))
       (\<lambda>chosenTpls. return (tplsForced, chosenTpls)))))"

text \<open>
  The loop that places the chosen items, with the grid, the count of failed placements and
  the items of the container as they stand.
\<close>

fun placeLoot ::
  "'r env \<Rightarrow> ILocationConfig \<Rightarrow> StaticAmmoDist \<Rightarrow> string \<Rightarrow> string list
     \<Rightarrow> int list list \<times> int \<times> Item list \<Rightarrow> ('r, Item list) M" where
  "placeLoot env cfg staticAmmoDist parentId' [] (containerMap, failedToFitCount, its) =
     return its"
| "placeLoot env cfg staticAmmoDist parentId' (tplToAdd # rest)
     (containerMap, failedToFitCount, its) =
     bnd (createStaticLootItem env cfg tplToAdd staticAmmoDist (Some parentId'))
       (\<lambda>chosenItemWithChildren.
          let result = findSlotForItem env containerMap (width chosenItemWithChildren)
                         (height chosenItemWithChildren)
          in
          if \<not> success result then
            (if failedToFitCount \<ge> fitLootIntoContainerAttempts cfg then return its
             else placeLoot env cfg staticAmmoDist parentId' rest
                    (containerMap, failedToFitCount + 1, its))
          else
            (case items chosenItemWithChildren of
               [] \<Rightarrow> throw TypeError
             | i # is \<Rightarrow>
                 placeLoot env cfg staticAmmoDist parentId' rest
                   (fillContainerMapWithItem env containerMap (slot_x result) (slot_y result)
                      (width chosenItemWithChildren) (height chosenItemWithChildren)
                      (rotation result),
                    failedToFitCount,
                    its @ i\<lparr>slotId := Some ''main'',
                            location := Some (slot_x result, slot_y result,
                                              if rotation result then 1 else 0)\<rparr> # is)))"

definition addLootToContainer ::
  "'r env \<Rightarrow> ILocationConfig \<Rightarrow> IStaticContainerData \<Rightarrow> IStaticForcedProps list option
     \<Rightarrow> (string \<rightharpoonup> IStaticLootDetails) \<Rightarrow> StaticAmmoDist \<Rightarrow> string
     \<Rightarrow> ('r, IStaticContainerData) M" where
  "addLootToContainer env cfg staticContainer staticForced' staticLootDist staticAmmoDist
     locationName =
     (case Items (template staticContainer) of
        [] \<Rightarrow> throw TypeError
      | rootNode # others \<Rightarrow>
          bnd (random (generate env)) (\<lambda>parentId'.
          bnd (lift (getContainerMapping env (tpl rootNode))) (\<lambda>containerMap.
          bnd (chooseTpls env cfg (tpl rootNode) staticLootDist locationName staticForced'
                 (Id' (template staticContainer)))
            (\<lambda>(tplsForced, chosenTpls).
          bnd (placeLoot env cfg staticAmmoDist parentId' (tplsForced @ chosenTpls)
                 (containerMap, 0, rootNode\<lparr>item_id := parentId'\<rparr> # others))
            (\<lambda>its.
               return (staticContainer\<lparr>template :=
                         (template staticContainer)\<lparr>Root := parentId', Items := its\<rparr>\<rparr>))))))"


subsection \<open>Choosing and filling the containers of a map\<close>

text \<open>The loop that fills each container of a list and pushes its template to the result.\<close>

definition addContainers ::
  "'r env \<Rightarrow> ILocationConfig \<Rightarrow> IStaticForcedProps list option
     \<Rightarrow> (string \<rightharpoonup> IStaticLootDetails) \<Rightarrow> StaticAmmoDist \<Rightarrow> string
     \<Rightarrow> IStaticContainerData list \<Rightarrow> SpawnpointTemplate list
     \<Rightarrow> ('r, SpawnpointTemplate list) M" where
  "addContainers env cfg staticForcedOnMap staticLootDist staticAmmoDist locationId' cs result =
     forEach cs result
       (\<lambda>container res.
          bnd (addLootToContainer env cfg container staticForcedOnMap staticLootDist
                 staticAmmoDist locationId')
            (\<lambda>containerWithLoot. return (res @ [template containerWithLoot])))"

text \<open>
  The edge case of the group with the empty id: every container of the group is rolled
  with its own probability, the ones that pass are the new pool of the group, and the
  count of the group is the size of that pool.
\<close>

definition rollContainers :: "'r env \<Rightarrow> IContainerGroupCount \<Rightarrow> ('r, IContainerGroupCount) M" where
  "rollContainers env data =
     bnd (forEach (DAList.impl_of (containerIdsWithProbability data)) DAList.empty
            (\<lambda>(containerId', p) pool.
               bnd (random (getChance100 env (p * 100)))
                 (\<lambda>passed. return (if passed then DAList.update containerId' p pool else pool))))
       (\<lambda>pool. return \<lparr>containerIdsWithProbability = pool,
                         chosenCount = int (length (keys pool))\<rparr>)"

text \<open>
  The containers of a group, once its pool and count are settled: the ids come from
  \<^verbatim>\<open>getContainersByProbabilty\<close>, each id is looked up among the randomisable containers
  of the map, and each container found is filled and pushed.
\<close>

definition addChosenContainers ::
  "'r env \<Rightarrow> ILocationConfig \<Rightarrow> IStaticContainerData list \<Rightarrow> IStaticForcedProps list option
     \<Rightarrow> (string \<rightharpoonup> IStaticLootDetails) \<Rightarrow> StaticAmmoDist \<Rightarrow> string
     \<Rightarrow> string \<Rightarrow> IContainerGroupCount \<Rightarrow> SpawnpointTemplate list \<times> int
     \<Rightarrow> ('r, SpawnpointTemplate list \<times> int) M" where
  "addChosenContainers env cfg staticRandomisableContainersOnMap staticForcedOnMap staticLootDist
     staticAmmoDist locationId' groupId data acc =
     bnd (getContainersByProbabilty env groupId data)
       (\<lambda>chosenContainerIds.
          forEach chosenContainerIds acc
            (\<lambda>chosenContainerId (result, staticContainerCount).
               case find (\<lambda>x. Id' (template x) = chosenContainerId)
                      staticRandomisableContainersOnMap of
                 None \<Rightarrow>
                   bnd (logger DebugContainerNotFound)
                     (\<lambda>_. return (result, staticContainerCount))
               | Some containerObject \<Rightarrow>
                   bnd (addLootToContainer env cfg containerObject staticForcedOnMap
                          staticLootDist staticAmmoDist locationId')
                     (\<lambda>containerWithLoot.
                        return (result @ [template containerWithLoot],
                                staticContainerCount + 1))))"

text \<open>The body of the loop over the groups of the map.\<close>

definition processGroup ::
  "'r env \<Rightarrow> ILocationConfig \<Rightarrow> IStaticContainerData list \<Rightarrow> IStaticForcedProps list option
     \<Rightarrow> (string \<rightharpoonup> IStaticLootDetails) \<Rightarrow> StaticAmmoDist \<Rightarrow> string
     \<Rightarrow> string \<times> IContainerGroupCount \<Rightarrow> SpawnpointTemplate list \<times> int
     \<Rightarrow> ('r, SpawnpointTemplate list \<times> int) M" where
  "processGroup env cfg staticRandomisableContainersOnMap staticForcedOnMap staticLootDist
     staticAmmoDist locationId' entry acc =
     (case entry of (groupId, data) \<Rightarrow>
        if chosenCount data = 0 then return acc
        else if length (keys (containerIdsWithProbability data)) = 0 then
          bnd (logger (DebugGroupNoContainers groupId)) (\<lambda>_. return acc)
        else if groupId = [] then
          bnd (rollContainers env data)
            (\<lambda>data'.
               if chosenCount data' = 0 then return acc
               else addChosenContainers env cfg staticRandomisableContainersOnMap
                      staticForcedOnMap staticLootDist staticAmmoDist locationId' groupId data' acc)
        else addChosenContainers env cfg staticRandomisableContainersOnMap staticForcedOnMap
               staticLootDist staticAmmoDist locationId' groupId data acc)"

definition generateStaticContainers ::
  "'r env \<Rightarrow> ILocationConfig \<Rightarrow> Database \<Rightarrow> ILocationBase \<Rightarrow> StaticAmmoDist
     \<Rightarrow> ('r, SpawnpointTemplate list) M" where
  "generateStaticContainers env cfg db locationBase staticAmmoDist =
     (let locationId' = toLowerCase (locId locationBase);
          details = lootStaticContainers db (Name locationBase);
          staticWeaponsOnMap = Option.bind details staticWeapons;
          allStaticContainersOnMap = Option.bind details staticContainers;
          staticForcedOnMap = Option.bind details staticForced;
          staticLootDist = lootStaticLoot db
      in
      bnd (if staticWeaponsOnMap = None then logger (ErrNoStaticWeaponData (Name locationBase))
           else return ())
        (\<lambda>_.
      bnd (if allStaticContainersOnMap = None
           then logger (ErrNoStaticContainerData (Name locationBase))
           else return ())
        (\<lambda>_.
      bnd (lift (getRandomisableContainersOnMap cfg allStaticContainersOnMap))
        (\<lambda>staticRandomisableContainersOnMap.
      bnd (if staticForcedOnMap = None then logger (ErrNoForcedStaticData (Name locationBase))
           else return ())
        (\<lambda>_.
      bnd (lift (getGuaranteedContainers cfg allStaticContainersOnMap))
        (\<lambda>guaranteedContainers.
      bnd (addContainers env cfg staticForcedOnMap staticLootDist staticAmmoDist locationId'
             guaranteedContainers (case staticWeaponsOnMap of None \<Rightarrow> [] | Some ws \<Rightarrow> ws))
        (\<lambda>result.
      bnd (logger (SuccessGuaranteedAdded (length guaranteedContainers)))
        (\<lambda>_.
      if \<not> enabled (containerRandomisationSettings cfg)
         \<or> maps' (containerRandomisationSettings cfg) locationId' \<noteq> Some True
      then
        bnd (logger (DebugRandomisationDisabled (length staticRandomisableContainersOnMap)
                       (Name locationBase)))
          (\<lambda>_. addContainers env cfg staticForcedOnMap staticLootDist staticAmmoDist locationId'
                  staticRandomisableContainersOnMap result)
      else
        (case locationStatics db locationId' of
           None \<Rightarrow> throw TypeError
         | Some staticContainerGroupData \<Rightarrow>
             bnd (getGroupIdToContainerMappings env cfg staticContainerGroupData
                    staticRandomisableContainersOnMap)
               (\<lambda>mapping.
             bnd (forEach (DAList.impl_of mapping) (result, int (length guaranteedContainers))
                    (processGroup env cfg staticRandomisableContainersOnMap staticForcedOnMap
                       staticLootDist staticAmmoDist locationId'))
               (\<lambda>(result', staticContainerCount).
             bnd (logger (SuccessContainersGenerated staticContainerCount))
               (\<lambda>_. return result'))))))))))))"


section \<open>Loose loot\<close>

subsection \<open>Forced loot\<close>

text \<open>
  \<^verbatim>\<open>addForcedLoot\<close> writes a new root id into the template of a forced spawn point and
  pushes that same template object to the loot array; a spawn point treated twice is
  pushed twice and both entries show the id written last. The forced spawn points are
  therefore kept as an array that is updated by index, the loot pushed by the function is
  a list of indices into it, and the templates are read at the end.
\<close>

definition setRoot :: "string \<Rightarrow> SpawnpointTemplate \<Rightarrow> error + SpawnpointTemplate" where
  "setRoot newRoot t =
     (case Items t of
        [] \<Rightarrow> Inl TypeError
      | i # is \<Rightarrow> Inr (t\<lparr>Root := newRoot, Items := i\<lparr>item_id := newRoot\<rparr> # is\<rparr>))"

text \<open>\<^verbatim>\<open>li.Root = this.objectId.generate(); li.Items[0]._id = li.Root; loot.push(li)\<close>.\<close>

definition forceSpawn ::
  "'r env \<Rightarrow> nat \<Rightarrow> SpawnpointsForced list \<times> nat list
     \<Rightarrow> ('r, SpawnpointsForced list \<times> nat list) M" where
  "forceSpawn env i acc =
     (case acc of (forced, refs) \<Rightarrow>
        bnd (random (generate env)) (\<lambda>newRoot.
        bnd (lift (setRoot newRoot (template (forced ! i)))) (\<lambda>t.
          return (forced[i := (forced ! i)\<lparr>template := t\<rparr>], refs @ [i]))))"

text \<open>The indices of the forced spawn points whose first item has the template id.\<close>

definition positionsOf :: "SpawnpointsForced list \<Rightarrow> string \<Rightarrow> error + nat list" where
  "positionsOf forced itemTpl' =
     filterE (\<lambda>i. case rootTpl (template (forced ! i)) of
                     Inl e \<Rightarrow> Inl e
                   | Inr t \<Rightarrow> Inr (t = itemTpl'))
       [0 ..< length forced]"

definition forceSingleSpawn ::
  "'r env \<Rightarrow> string \<Rightarrow> string \<Rightarrow> SpawnpointsForced list \<times> nat list
     \<Rightarrow> ('r, SpawnpointsForced list \<times> nat list) M" where
  "forceSingleSpawn env locationName itemTpl' acc =
     (case acc of (forced, refs) \<Rightarrow>
        bnd (lift (positionsOf forced itemTpl')) (\<lambda>positions.
          if length positions = 0 then
            bnd (logger (DebugUnableToAdjustLoot itemTpl' locationName)) (\<lambda>_. return acc)
          else
            bnd (random (draw env
                   (map (\<lambda>i. (locationId (forced ! i), probability (forced ! i))) positions)
                   (Arg (JSInt 1)) (Arg False) Omitted))
              (\<lambda>drawn.
                 forEach drawn acc
                   (\<lambda>spawnPointLocationId acc'.
                      case find (\<lambda>i. locationId (fst acc' ! i) = spawnPointLocationId)
                             positions of
                        None \<Rightarrow> throw TypeError
                      | Some i \<Rightarrow> forceSpawn env i acc'))))"

definition addForcedLoot ::
  "'r env \<Rightarrow> ILocationConfig \<Rightarrow> SpawnpointTemplate list \<Rightarrow> SpawnpointsForced list \<Rightarrow> string
     \<Rightarrow> ('r, SpawnpointTemplate list) M" where
  "addForcedLoot env cfg loot forcedSpawnPoints locationName =
     (let lootToForceSingleAmountOnMap = forcedLootSingleSpawnById cfg locationName in
      bnd (case lootToForceSingleAmountOnMap of
             None \<Rightarrow> return (forcedSpawnPoints, [])
           | Some tpls \<Rightarrow>
               forEach tpls (forcedSpawnPoints, []) (forceSingleSpawn env locationName))
        (\<lambda>acc.
      bnd (forEach [0 ..< length forcedSpawnPoints] acc
             (\<lambda>i acc'.
                bnd (case lootToForceSingleAmountOnMap of
                       None \<Rightarrow> return False
                     | Some tpls \<Rightarrow>
                         bnd (lift (rootTpl (template (fst acc' ! i))))
                           (\<lambda>t. return (t \<in> set tpls)))
                  (\<lambda>processedAbove.
                     if processedAbove then return acc'
                     else
                       bnd (if seasonalEventEnabled env then return False
                            else bnd (lift (rootTpl (template (fst acc' ! i))))
                                   (\<lambda>t. return (t \<in> set (getAllSeasonalEventItems env))))
                         (\<lambda>outOfSeason.
                            if outOfSeason then return acc' else forceSpawn env i acc'))))
        (\<lambda>(forced, refs). return (loot @ map (\<lambda>i. template (forced ! i)) refs))))"

subsection \<open>Building one item of loose loot\<close>

definition reparentItemAndChildren ::
  "'r env \<Rightarrow> Item list \<Rightarrow> string arg \<Rightarrow> ('r, Item list) M" where
  "reparentItemAndChildren env itemWithChildren newIdArg =
     bnd (case newIdArg of Omitted \<Rightarrow> random (generate env) | Arg i \<Rightarrow> return i)
       (\<lambda>newId.
          case itemWithChildren of
            [] \<Rightarrow> throw TypeError
          | base # others \<Rightarrow>
              return (map (\<lambda>item. if parentId item = Some (item_id base)
                                   then item\<lparr>parentId := Some newId\<rparr> else item)
                        (base\<lparr>item_id := newId\<rparr> # others)))"

definition bareItem :: "string \<Rightarrow> string \<Rightarrow> Item" where
  "bareItem i t =
     \<lparr>item_id = i, tpl = t, parentId = None, slotId = None, location = None, upd = None\<rparr>"

definition createDynamicLootItem ::
  "'r env \<Rightarrow> ILocationConfig \<Rightarrow> string option \<Rightarrow> Spawnpoint \<Rightarrow> StaticAmmoDist
     \<Rightarrow> ('r, IContainerItem) M" where
  "createDynamicLootItem env cfg chosenComposedKey spawnPoint staticAmmoDist =
     (case Option.bind chosenComposedKey
             (\<lambda>k. find (\<lambda>x. item_id x = k) (Items (template spawnPoint))) of
        None \<Rightarrow> throw TypeError
      | Some chosenItem \<Rightarrow>
          let chosenTpl = tpl chosenItem in
          bnd (if isOfBaseclass env chosenTpl MONEY \<or> isOfBaseclass env chosenTpl AMMO then
                 (case getItem env chosenTpl of
                    None \<Rightarrow> throw TypeError
                  | Some itemTemplate \<Rightarrow>
                      bnd (random (getInt env (StackMinRandom (props itemTemplate))
                                              (StackMaxRandom (props itemTemplate))))
                        (\<lambda>stackCount.
                      bnd (random (generate env))
                        (\<lambda>newId. return [(bareItem newId chosenTpl)\<lparr>upd := Some stackCount\<rparr>])))
               else if isOfBaseclass env chosenTpl AMMO_BOX then
                 bnd (random (generate env)) (\<lambda>newId.
                   random (addCartridgesToAmmoBox env [bareItem newId chosenTpl]
                             (getItem env chosenTpl)))
               else if isOfBaseclass env chosenTpl MAGAZINE then
                 bnd (random (generate env)) (\<lambda>newId.
                   random (fillMagazineWithRandomCartridge env [bareItem newId chosenTpl]
                             (getItem env chosenTpl) staticAmmoDist None
                             (Arg (minFillLooseMagazinePercent cfg / 100))))
               else
                 reparentItemAndChildren env
                   (findAndReturnChildrenAsItems env (Items (template spawnPoint))
                      (item_id chosenItem))
                   Omitted)
            (\<lambda>itemWithMods.
               case itemWithMods of
                 [] \<Rightarrow> throw TypeError
               | i # _ \<Rightarrow>
                   let size = getItemSize env itemWithMods (item_id i)
                   in return \<lparr>items = itemWithMods, width = fst size, height = snd size\<rparr>))"

subsection \<open>Choosing and filling the spawn points\<close>

text \<open>
  Modelled from the spec: the class \<^verbatim>\<open>ProbabilityObjectArray\<close> is not among the sources;
  the spec describes a pool as an ordered sequence of labelled, weighted entries. An entry
  is its key, its weight and the data stored with it, \<^verbatim>\<open>push\<close> appends an entry, and
  \<^verbatim>\<open>data(key)\<close> is the data of the first entry with that key, \<^verbatim>\<open>undefined\<close> when there
  is none.
\<close>

definition poolData :: "('k \<times> rat \<times> 'd) list \<Rightarrow> 'k \<Rightarrow> 'd option" where
  "poolData pool k = map_option (\<lambda>(_, _, d). d) (find (\<lambda>(k', _, _). k' = k) pool)"

definition isBlacklisted :: "ILocationConfig \<Rightarrow> string \<Rightarrow> Spawnpoint \<Rightarrow> bool" where
  "isBlacklisted cfg locationName spawnpoint =
     (case looseLootBlacklist cfg locationName of
        None \<Rightarrow> False
      | Some blacklistedPoints \<Rightarrow> Id' (template spawnpoint) \<in> set blacklistedPoints)"

text \<open>The loop that sorts the spawn points into guaranteed points and the weighted pool.\<close>

definition classifySpawnpoints ::
  "ILocationConfig \<Rightarrow> string \<Rightarrow> Spawnpoint list
     \<Rightarrow> ('r, Spawnpoint list \<times> (string \<times> rat \<times> Spawnpoint) list) M" where
  "classifySpawnpoints cfg locationName allDynamicSpawnpoints =
     forEach allDynamicSpawnpoints ([], [])
       (\<lambda>spawnpoint (guaranteedLoosePoints, spawnpointArray).
          if isBlacklisted cfg locationName spawnpoint then
            bnd (logger (DebugIgnoringLooseLoot (Id' (template spawnpoint))))
              (\<lambda>_. return (guaranteedLoosePoints, spawnpointArray))
          else if probability spawnpoint = 1 then
            return (guaranteedLoosePoints @ [spawnpoint], spawnpointArray)
          else
            return (guaranteedLoosePoints,
                    spawnpointArray @
                      [(Id' (template spawnpoint), probability spawnpoint, spawnpoint)]))"

text \<open>
  \<^verbatim>\<open>[...new Map(xs.map(x => [x.locationId, x])).values()]\<close>: one entry per location id,
  at the place of the first spawn point with that id, holding the last one.
\<close>

definition dedupeByLocationId :: "Spawnpoint list \<Rightarrow> Spawnpoint list" where
  "dedupeByLocationId xs = map snd (foldl (\<lambda>m x. AList.update (locationId x) x m) [] xs)"

text \<open>
  The spawn points chosen by \<^verbatim>\<open>generateDynamicLoot\<close>: the desired count, the guaranteed
  points, and the chosen points after the removal of duplicate location ids. A key the
  draw returns that labels no entry of the pool pushes \<^verbatim>\<open>undefined\<close>, whose location id
  cannot be read.
\<close>

definition chooseSpawnpoints ::
  "'r env \<Rightarrow> ILocationConfig \<Rightarrow> ILooseLoot \<Rightarrow> string
     \<Rightarrow> ('r, jsint \<times> Spawnpoint list \<times> Spawnpoint list) M" where
  "chooseSpawnpoints env cfg dynamicLootDist locationName =
     bnd (random (randn env (mean (spawnpointCount dynamicLootDist))
                            (std (spawnpointCount dynamicLootDist))))
       (\<lambda>n.
          let desiredSpawnpointCount =
                roundProduct (getLooseLootMultiplerForLocation cfg locationName) (Some n)
          in
     bnd (classifySpawnpoints cfg locationName (spawnpoints dynamicLootDist))
       (\<lambda>(guaranteedLoosePoints, spawnpointArray).
     bnd (random (draw env (map (\<lambda>(k, p, _). (k, p)) spawnpointArray)
                    (Arg desiredSpawnpointCount) (Arg False) Omitted))
       (\<lambda>drawn.
          case those (map Some guaranteedLoosePoints @ map (poolData spawnpointArray) drawn) of
            None \<Rightarrow> throw TypeError
          | Some chosenSpawnpoints \<Rightarrow>
              return (desiredSpawnpointCount, guaranteedLoosePoints,
                      dedupeByLocationId chosenSpawnpoints))))"

text \<open>The pool of item keys of one spawn point, without the seasonal items out of season.\<close>

definition spawnpointItemPool :: "'r env \<Rightarrow> Spawnpoint \<Rightarrow> error + (string \<times> rat) list" where
  "spawnpointItemPool env spawnPoint =
     (case filterE
             (\<lambda>itemDist.
                if seasonalEventEnabled env then Inr True
                else (case find (\<lambda>x. item_id x = composedKey itemDist)
                             (Items (template spawnPoint)) of
                        None \<Rightarrow> Inl TypeError
                      | Some i \<Rightarrow> Inr (tpl i \<notin> set (getAllSeasonalEventItems env))))
             (itemDistribution spawnPoint) of
        Inl e \<Rightarrow> Inl e
      | Inr ds \<Rightarrow> Inr (map (\<lambda>d. (composedKey d, relativeProbability d)) ds))"

definition fillSpawnpoint ::
  "'r env \<Rightarrow> ILocationConfig \<Rightarrow> StaticAmmoDist \<Rightarrow> Spawnpoint \<Rightarrow> SpawnpointTemplate list
     \<Rightarrow> ('r, SpawnpointTemplate list) M" where
  "fillSpawnpoint env cfg staticAmmoDist spawnPoint loot =
     bnd (lift (spawnpointItemPool env spawnPoint)) (\<lambda>itemArray.
     bnd (random (draw env itemArray (Arg (JSInt 1)) Omitted Omitted)) (\<lambda>drawn.
     bnd (createDynamicLootItem env cfg (first drawn) spawnPoint staticAmmoDist)
       (\<lambda>createItemResult.
          case items createItemResult of
            [] \<Rightarrow> throw TypeError
          | i # _ \<Rightarrow>
              return (loot @ [(template spawnPoint)\<lparr>Root := item_id i,
                                                    Items := items createItemResult\<rparr>]))))"

definition jsGreater :: "jsint \<Rightarrow> int \<Rightarrow> bool" where
  "jsGreater a b = (case a of NaN \<Rightarrow> False | JSInt x \<Rightarrow> x > b)"

definition jsPlus :: "jsint \<Rightarrow> int \<Rightarrow> int option" where
  "jsPlus a b = (case a of NaN \<Rightarrow> None | JSInt x \<Rightarrow> Some (x + b))"

definition generateDynamicLoot ::
  "'r env \<Rightarrow> ILocationConfig \<Rightarrow> ILooseLoot \<Rightarrow> StaticAmmoDist \<Rightarrow> string
     \<Rightarrow> ('r, SpawnpointTemplate list) M" where
  "generateDynamicLoot env cfg dynamicLootDist staticAmmoDist locationName =
     bnd (addForcedLoot env cfg [] (spawnpointsForced dynamicLootDist) locationName)
       (\<lambda>loot.
     bnd (chooseSpawnpoints env cfg dynamicLootDist locationName)
       (\<lambda>(desiredSpawnpointCount, guaranteedLoosePoints, chosenSpawnpoints).
     bnd (if jsGreater desiredSpawnpointCount (int (length chosenSpawnpoints)) then
            logger (DebugSpawnPointCount
                      (jsPlus desiredSpawnpointCount (int (length guaranteedLoosePoints)))
                      (length chosenSpawnpoints) locationName)
          else return ())
       (\<lambda>_. forEach chosenSpawnpoints loot (fillSpawnpoint env cfg staticAmmoDist))))"


section \<open>The weighted sampler and the grid allocator of the spec\<close>

text \<open>
  Modelled from the spec: \<^verbatim>\<open>ProbabilityObjectArray.draw\<close> (the weighted sampler) is not
  among the sources. The spec has it draw \<open>n\<close> times; each draw chooses an entry with a
  probability proportional to its weight among the remaining entries, an entry of weight
  zero is never chosen, and a pool whose weights are all zero draws nothing. A drawn entry
  is removed from the pool for the later draws of the call unless the draw is with
  replacement or the key of the entry is on the lock list, so that the result is shorter
  than \<open>n\<close> when the pool runs out. The random source is a list of numbers of the interval
  from 0 to 1 (1 excluded), one for each draw; a missing number counts as 0. A draw
  without a count draws once, a count that is not a number draws nothing, and a draw is
  without replacement unless replacement is asked for.
\<close>

definition totalWeight :: "('k \<times> rat) list \<Rightarrow> rat" where
  "totalWeight pool = sum_list (map snd pool)"

text \<open>The first entry whose cumulated weight exceeds the threshold.\<close>

fun pickIndex :: "rat \<Rightarrow> ('k \<times> rat) list \<Rightarrow> nat option" where
  "pickIndex t [] = None"
| "pickIndex t ((k, w) # pool) =
     (if t < w then Some 0 else map_option Suc (pickIndex (t - w) pool))"

definition nextUniform :: "rat list \<Rightarrow> rat \<times> rat list" where
  "nextUniform us = (case us of [] \<Rightarrow> (0, []) | u # us' \<Rightarrow> (u, us'))"

definition removeAt :: "nat \<Rightarrow> 'a list \<Rightarrow> 'a list" where
  "removeAt i xs = take i xs @ drop (Suc i) xs"

fun drawLoop ::
  "nat \<Rightarrow> bool \<Rightarrow> 'k list \<Rightarrow> ('k \<times> rat) list \<Rightarrow> rat list \<Rightarrow> 'k list \<times> rat list" where
  "drawLoop 0 replacement locklist pool us = ([], us)"
| "drawLoop (Suc n) replacement locklist pool us =
     (if totalWeight pool \<le> 0 then ([], us)
      else
        (case nextUniform us of (u, us') \<Rightarrow>
           (case pickIndex (u * totalWeight pool) pool of
              None \<Rightarrow> ([], us')
            | Some i \<Rightarrow>
                let k = fst (pool ! i);
                    pool' = (if replacement \<or> k \<in> set locklist then pool else removeAt i pool)
                in (case drawLoop n replacement locklist pool' us' of
                      (ks, us'') \<Rightarrow> (k # ks, us'')))))"

definition drawSpec ::
  "('k \<times> rat) list \<Rightarrow> jsint arg \<Rightarrow> bool arg \<Rightarrow> 'k list arg \<Rightarrow> rat list
     \<Rightarrow> 'k list \<times> rat list" where
  "drawSpec pool countArg replacementArg locklistArg us =
     (case (case countArg of Omitted \<Rightarrow> Some 1 | Arg NaN \<Rightarrow> None
                           | Arg (JSInt n) \<Rightarrow> Some (nat n)) of
        None \<Rightarrow> ([], us)
      | Some n \<Rightarrow>
          drawLoop n (case replacementArg of Omitted \<Rightarrow> False | Arg b \<Rightarrow> b)
            (case locklistArg of Omitted \<Rightarrow> [] | Arg l \<Rightarrow> l) pool us)"

text \<open>
  Modelled from the spec: \<^verbatim>\<open>ContainerHelper\<close> (the grid allocator) is not among the
  sources. The spec has \<^verbatim>\<open>findSlot\<close> scan the positions of the grid row by row, try the
  item as it is and then rotated at each position, and accept the first position where
  the rectangle lies within the grid on free cells; \<^verbatim>\<open>fill\<close> marks the cells of the
  rectangle as occupied.
\<close>

definition cellFree :: "int list list \<Rightarrow> nat \<Rightarrow> nat \<Rightarrow> bool" where
  "cellFree grid x y = (y < length grid \<and> x < length (grid ! y) \<and> grid ! y ! x = 0)"

definition fits :: "int list list \<Rightarrow> nat \<Rightarrow> nat \<Rightarrow> nat \<Rightarrow> nat \<Rightarrow> bool" where
  "fits grid x y w h =
     list_all (\<lambda>j. list_all (\<lambda>i. cellFree grid i j) [x ..< x + w]) [y ..< y + h]"

fun scan :: "int list list \<Rightarrow> nat \<Rightarrow> nat \<Rightarrow> (nat \<times> nat) list \<Rightarrow> FindSlotResult" where
  "scan grid w h [] = \<lparr>success = False, slot_x = 0, slot_y = 0, rotation = False\<rparr>"
| "scan grid w h ((x, y) # ps) =
     (if fits grid x y w h
      then \<lparr>success = True, slot_x = int x, slot_y = int y, rotation = False\<rparr>
      else if fits grid x y h w
      then \<lparr>success = True, slot_x = int x, slot_y = int y, rotation = True\<rparr>
      else scan grid w h ps)"

definition findSlotSpec :: "int list list \<Rightarrow> int \<Rightarrow> int \<Rightarrow> FindSlotResult" where
  "findSlotSpec grid w h =
     scan grid (nat w) (nat h)
       (concat (map (\<lambda>y. map (\<lambda>x. (x, y)) [0 ..< (case grid of [] \<Rightarrow> 0 | r # _ \<Rightarrow> length r)])
                  [0 ..< length grid]))"

definition fillSpec ::
  "int list list \<Rightarrow> int \<Rightarrow> int \<Rightarrow> int \<Rightarrow> int \<Rightarrow> bool \<Rightarrow> int list list" where
  "fillSpec grid x y w h rotated =
     (let w' = nat (if rotated then h else w); h' = nat (if rotated then w else h) in
      map (\<lambda>(j, row). map (\<lambda>(i, c). if nat y \<le> j \<and> j < nat y + h' \<and> nat x \<le> i \<and> i < nat x + w'
                                       then 1 else c)
                          (zip [0 ..< length row] row))
          (zip [0 ..< length grid] grid))"


section \<open>An example map\<close>

text \<open>
  A small instance of the collaborators, for running the generator: random numbers are
  read from a list, ids are numbered, the draw and the grid allocator are the ones of the
  spec, a magazine and an ammunition box stay empty, and re-parenting a preset fails when
  the preset has no items.
\<close>

record rstate =
  uniforms :: "rat list"
  nextId :: nat

definition withUniform :: "(rat \<Rightarrow> 'a) \<Rightarrow> rstate \<Rightarrow> 'a \<times> rstate" where
  "withUniform f r = (case nextUniform (uniforms r) of (u, us) \<Rightarrow> (f u, r\<lparr>uniforms := us\<rparr>))"

definition withUniforms :: "(rat list \<Rightarrow> 'a \<times> rat list) \<Rightarrow> rstate \<Rightarrow> 'a \<times> rstate" where
  "withUniforms f r = (case f (uniforms r) of (x, us) \<Rightarrow> (x, r\<lparr>uniforms := us\<rparr>))"

definition exampleTemplate :: "int \<Rightarrow> int \<Rightarrow> GridProps list \<Rightarrow> ITemplateItem" where
  "exampleTemplate w h gs =
     \<lparr>props = \<lparr>Width = w, Height = h, StackMinRandom = 1, StackMaxRandom = 10, Grids = gs,
               ammoCaliber = None\<rparr>\<rparr>"

definition exampleItems :: "(string \<times> ITemplateItem) list" where
  "exampleItems =
     [(''crate'', exampleTemplate 1 1 [\<lparr>cellsH = 1, cellsV = 1\<rparr>]),
      (''safe'', exampleTemplate 1 1 [\<lparr>cellsH = 2, cellsV = 2\<rparr>]),
      (''big'', exampleTemplate 2 2 []),
      (''small'', exampleTemplate 1 1 []),
      (''key'', exampleTemplate 1 1 []),
      (''roubles'', exampleTemplate 1 1 []),
      (''rifle'', exampleTemplate 2 1 []),
      (''pistol'', exampleTemplate 1 1 []),
      (''flare'', exampleTemplate 1 1 [])]"

definition examplePresets :: "(string \<times> IPreset) list" where
  "examplePresets =
     [(''rifle'', \<lparr>preset_id = ''p1'', preset_name = ''rifle default'', preset_items = []\<rparr>),
      (''pistol'', \<lparr>preset_id = ''p2'', preset_name = ''pistol default'',
                   preset_items = [bareItem ''a'' ''pistol'',
                                   (bareItem ''b'' ''grip'')\<lparr>parentId := Some ''a''\<rparr>]\<rparr>)]"

definition exampleReparent ::
  "Item option \<Rightarrow> Item list \<Rightarrow> rstate \<Rightarrow> (error + Item list) \<times> rstate" where
  "exampleReparent item preset r =
     (case (item, preset) of
        (Some i, p # ps) \<Rightarrow>
          (Inr (i # map (\<lambda>x. if parentId x = Some (item_id p)
                              then x\<lparr>parentId := Some (item_id i)\<rparr> else x) ps), r)
      | _ \<Rightarrow> (Inl (HelperError ''no preset items''), r))"

definition exampleEnv :: "rstate env" where
  "exampleEnv =
     \<lparr>generate = (\<lambda>r. (''id'' @ replicate (nextId r) CHR ''x'', r\<lparr>nextId := Suc (nextId r)\<rparr>)),
      getInt = (\<lambda>a b. withUniform (\<lambda>u. a + \<lfloor>u * of_int (b - a + 1)\<rfloor>)),
      getChance100 = (\<lambda>c. withUniform (\<lambda>u. u * 100 < c)),
      randn = (\<lambda>m s. withUniform (\<lambda>u. m + s * (2 * u - 1))),
      draw = (\<lambda>pool c rp l. withUniforms (drawSpec pool c rp l)),
      drawNumber = (\<lambda>pool c rp l. withUniforms (drawSpec pool c rp l)),
      getItem = map_of exampleItems,
      isOfBaseclass = (\<lambda>t c. (t, c) \<in> set [(''roubles'', MONEY), (''rifle'', WEAPON),
                                             (''pistol'', WEAPON), (''flare'', WEAPON)]),
      addCartridgesToAmmoBox = (\<lambda>its t r. (its, r)),
      fillMagazineWithRandomCartridge = (\<lambda>its t a c m r. (its, r)),
      findAndReturnChildrenAsItems =
        (\<lambda>its i. filter (\<lambda>x. item_id x = i \<or> parentId x = Some i) its),
      getItemSize =
        (\<lambda>its i. case Option.bind (first its) (\<lambda>x. map_of exampleItems (tpl x)) of
                    None \<Rightarrow> (1, 1)
                  | Some t \<Rightarrow> (Width (props t), Height (props t))),
      getDefaultPreset = map_of examplePresets,
      reparentPresets = exampleReparent,
      seasonalEventEnabled = False,
      getAllSeasonalEventItems = [''xmas''],
      findSlotForItem = findSlotSpec,
      fillContainerMapWithItem = fillSpec,
      ROUBLES = ''roubles'',
      DOLLARS = ''dollars'',
      EUROS = ''euros''\<rparr>"

definition exampleConfig :: "bool \<Rightarrow> ILocationConfig" where
  "exampleConfig randomise =
     \<lparr>containerRandomisationSettings =
        \<lparr>enabled = randomise, maps' = [''woods'' \<mapsto> True],
         containerTypesToNotRandomise = [''safe''],
         containerGroupMinSizeMultiplier = 1, containerGroupMaxSizeMultiplier = 1\<rparr>,
      looseLootMultiplier = [''woods'' \<mapsto> 1],
      staticLootMultiplier = [''woods'' \<mapsto> 1],
      looseLootBlacklist = [''woods'' \<mapsto> [''closed'']],
      forcedLootSingleSpawnById = Map.empty,
      allowDuplicateItemsInStaticContainers = False,
      fitLootIntoContainerAttempts = 2,
      minFillLooseMagazinePercent = 50,
      minFillStaticMagazinePercent = 50\<rparr>"

definition exampleContainer :: "string \<Rightarrow> string \<Rightarrow> rat \<Rightarrow> IStaticContainerData" where
  "exampleContainer i t p =
     \<lparr>probability = p,
      template = \<lparr>Id' = i, IsAlwaysSpawn = False, Root = ''r'', Items = [bareItem ''r'' t]\<rparr>\<rparr>"

definition exampleLoot :: "IStaticLootDetails" where
  "exampleLoot =
     \<lparr>itemcountDistribution = [\<lparr>count' = 0, countProbability = 1\<rparr>],
      staticItemDistribution = [\<lparr>lootTpl = ''small'', lootProbability = 1\<rparr>]\<rparr>"

definition exampleDatabase :: "IStaticContainerData list \<Rightarrow> Database" where
  "exampleDatabase cs =
     \<lparr>lootStaticContainers =
        [''Woods'' \<mapsto> \<lparr>staticWeapons = Some [], staticContainers = Some cs,
                         staticForced = Some []\<rparr>],
      lootStaticLoot = [''crate'' \<mapsto> exampleLoot, ''safe'' \<mapsto> exampleLoot],
      locationStatics =
        [''woods'' \<mapsto> \<lparr>containersGroups = DAList.empty,
                         containers = [''c2'' \<mapsto> [], ''c3'' \<mapsto> []]\<rparr>]\<rparr>"

definition exampleWorld :: "rat list \<Rightarrow> rstate world" where
  "exampleWorld us = \<lparr>rnd = \<lparr>uniforms = us, nextId = 0\<rparr>, logs = []\<rparr>"

definition exampleSpawnpoint :: "string \<Rightarrow> string \<Rightarrow> rat \<Rightarrow> Spawnpoint" where
  "exampleSpawnpoint i l p =
     \<lparr>probability = p,
      template = \<lparr>Id' = i, IsAlwaysSpawn = False, Root = ''k'', Items = [bareItem ''k'' ''key'']\<rparr>,
      locationId = l,
      itemDistribution = [\<lparr>composedKey = ''k'', relativeProbability = 1\<rparr>]\<rparr>"

definition exampleLooseLoot :: "Spawnpoint list \<Rightarrow> ILooseLoot" where
  "exampleLooseLoot sps =
     \<lparr>spawnpointCount = \<lparr>mean = 1, std = 0\<rparr>, spawnpointsForced = [], spawnpoints = sps\<rparr>"

section \<open>Verification\<close>

subsection \<open>Sequencing\<close>

lemma bnd_return: "bnd (return x) f = f x"
  by (rule ext) (simp add: bnd_def return_def)

lemma bnd_throw: "bnd (throw e) f = throw e"
  by (rule ext) (simp add: bnd_def throw_def)

lemma bnd_logger: "bnd (logger l) f w = f () (w\<lparr>logs := logs w @ [l]\<rparr>)"
  by (simp add: bnd_def logger_def)

lemma bnd_lift_Inr: "bnd (lift (Inr x)) f = f x"
  by (rule ext) (simp add: bnd_def lift_def)

lemma bnd_lift_Inl: "bnd (lift (Inl e)) f = throw e"
  by (rule ext) (simp add: bnd_def lift_def throw_def)

lemma bnd_random: "bnd (random g) f w = (case g (rnd w) of (x, r') \<Rightarrow> f x (w\<lparr>rnd := r'\<rparr>))"
  by (simp add: bnd_def random_def split: prod.splits)

lemma bnd_Inr:
  "bnd m f w = (Inr y, w') \<longleftrightarrow> (\<exists>x w1. m w = (Inr x, w1) \<and> f x w1 = (Inr y, w'))"
  by (auto simp: bnd_def split: prod.splits sum.splits)

lemma bnd_Inl:
  "m w = (Inl e, w1) \<Longrightarrow> bnd m f w = (Inl e, w1)"
  by (simp add: bnd_def)

lemma bnd_step:
  "m w = (Inr x, w1) \<Longrightarrow> bnd m f w = f x w1"
  by (simp add: bnd_def)

lemma return_Inr: "return x w = (Inr y, w') \<longleftrightarrow> y = x \<and> w' = w"
  by (auto simp: return_def)

lemma throw_Inr: "throw e w = (Inr y, w') \<longleftrightarrow> False"
  by (simp add: throw_def)

lemma logger_Inr: "logger l w = (Inr y, w') \<longleftrightarrow> w' = w\<lparr>logs := logs w @ [l]\<rparr>"
  by (auto simp: logger_def)

lemma lift_Inr: "lift v w = (Inr y, w') \<longleftrightarrow> v = Inr y \<and> w' = w"
  by (auto simp: lift_def)

subsection \<open>The two selections of containers\<close>

lemma isRandomisable_neg:
  "isRandomisable cfg x = map_sum id Not (isGuaranteed cfg x)"
  by (simp add: isRandomisable_def isGuaranteed_def split: sum.splits)

lemma filterE_Inr:
  "filterE p xs = Inr g \<Longrightarrow>
     (\<forall>x\<in>set xs. \<exists>b. p x = Inr b) \<and> g = filter (\<lambda>x. p x = Inr True) xs"
proof (induction xs arbitrary: g)
  case Nil
  then show ?case by simp
next
  case (Cons x xs)
  from Cons.prems obtain b ys where b: "p x = Inr b" and ys: "filterE p xs = Inr ys"
    and g: "g = (if b then x # ys else ys)"
    by (auto split: sum.splits)
  from Cons.IH [OF ys] b g show ?case by auto
qed

lemma filterE_total:
  "\<forall>x\<in>set xs. \<exists>b. p x = Inr b \<Longrightarrow> filterE p xs = Inr (filter (\<lambda>x. p x = Inr True) xs)"
  by (induction xs) auto

lemma filterE_Inl_neg:
  assumes "\<And>x. q x = map_sum id Not (p x)"
  shows "filterE q xs = Inl e \<longleftrightarrow> filterE p xs = Inl e"
proof (induction xs arbitrary: e)
  case Nil
  then show ?case by simp
next
  case (Cons x xs)
  show ?case
  proof (cases "p x")
    case (Inl e')
    then show ?thesis using assms [of x] by simp
  next
    case (Inr b)
    then have qx: "q x = Inr (\<not> b)" using assms [of x] by simp
    show ?thesis
    proof (cases "filterE p xs")
      case pl: (Inl a)
      then have "filterE q xs = Inl a" using Cons.IH [of a] by simp
      then show ?thesis using pl Inr qx by simp
    next
      case pr: (Inr ys)
      show ?thesis
      proof (cases "filterE q xs")
        case (Inl a)
        then have "filterE p xs = Inl a" using Cons.IH [of a] by simp
        then show ?thesis using pr by simp
      next
        case (Inr zs)
        then show ?thesis using pr \<open>p x = Inr b\<close> qx by simp
      qed
    qed
  qed
qed

lemma selections_partition:
  assumes g: "filterE (isGuaranteed cfg) xs = Inr g"
  shows "\<exists>r. filterE (isRandomisable cfg) xs = Inr r \<and>
         (\<forall>c\<in>set xs. (c \<in> set g) \<noteq> (c \<in> set r)) \<and> mset g + mset r = mset xs"
proof -
  have neg: "\<And>x. isRandomisable cfg x = map_sum id Not (isGuaranteed cfg x)"
    by (rule isRandomisable_neg)
  from filterE_Inr [OF g]
  have tot: "\<forall>x\<in>set xs. \<exists>b. isGuaranteed cfg x = Inr b"
    and g_eq: "g = filter (\<lambda>x. isGuaranteed cfg x = Inr True) xs" by simp_all
  have tot': "\<forall>x\<in>set xs. \<exists>b. isRandomisable cfg x = Inr b"
    using tot by (auto simp: neg)
  have r: "filterE (isRandomisable cfg) xs
            = Inr (filter (\<lambda>x. isRandomisable cfg x = Inr True) xs)"
    by (rule filterE_total [OF tot'])
  have flip: "\<forall>x\<in>set xs. (isRandomisable cfg x = Inr True) = (\<not> isGuaranteed cfg x = Inr True)"
    using tot by (auto simp: neg)
  have r_eq: "filter (\<lambda>x. isRandomisable cfg x = Inr True) xs
              = filter (\<lambda>x. \<not> isGuaranteed cfg x = Inr True) xs"
    using flip by (auto intro: filter_cong)
  show ?thesis unfolding r r_eq g_eq by auto
qed

text \<open>
  C9. The guaranteed and the randomisable containers partition the containers of a map:
  the two selections fail on the same inputs with the same error (a missing table, or a
  container without items whose type has to be read), and when the guaranteed selection
  returns, so does the randomisable one, each container of the input is in exactly one of
  the two results, and the two results together hold the input, container by container.
\<close>

theorem guaranteed_randomisable_partition:
  "(getRandomisableContainersOnMap cfg cs = Inl e \<longleftrightarrow> getGuaranteedContainers cfg cs = Inl e) \<and>
   (\<forall>g. getGuaranteedContainers cfg cs = Inr g \<longrightarrow>
      (\<exists>r xs. cs = Some xs \<and> getRandomisableContainersOnMap cfg cs = Inr r \<and>
         (\<forall>c\<in>set xs. (c \<in> set g) \<noteq> (c \<in> set r)) \<and> mset g + mset r = mset xs))"
proof (cases cs)
  case None
  then show ?thesis
    by (simp add: getRandomisableContainersOnMap_def getGuaranteedContainers_def)
next
  case (Some xs)
  have fail: "filterE (isRandomisable cfg) xs = Inl e \<longleftrightarrow> filterE (isGuaranteed cfg) xs = Inl e"
    by (rule filterE_Inl_neg [OF isRandomisable_neg])
  show ?thesis using fail selections_partition [of cfg xs] Some
    by (simp add: getRandomisableContainersOnMap_def getGuaranteedContainers_def)
qed

theorem guaranteed_randomisable_partition_witness:
  "getGuaranteedContainers (exampleConfig True)
     (Some [exampleContainer ''c1'' ''crate'' 1, exampleContainer ''c2'' ''crate'' (1 / 2),
            exampleContainer ''c3'' ''safe'' (1 / 2)])
     = Inr [exampleContainer ''c1'' ''crate'' 1, exampleContainer ''c3'' ''safe'' (1 / 2)] \<and>
   (\<exists>r. getRandomisableContainersOnMap (exampleConfig True)
     (Some [exampleContainer ''c1'' ''crate'' 1, exampleContainer ''c2'' ''crate'' (1 / 2),
            exampleContainer ''c3'' ''safe'' (1 / 2)]) = Inr r \<and>
     mset [exampleContainer ''c1'' ''crate'' 1, exampleContainer ''c3'' ''safe'' (1 / 2)] + mset r
       = mset [exampleContainer ''c1'' ''crate'' 1, exampleContainer ''c2'' ''crate'' (1 / 2),
               exampleContainer ''c3'' ''safe'' (1 / 2)])"
proof -
  let ?cs = "[exampleContainer ''c1'' ''crate'' 1, exampleContainer ''c2'' ''crate'' (1 / 2),
              exampleContainer ''c3'' ''safe'' (1 / 2)]"
  have g: "getGuaranteedContainers (exampleConfig True) (Some ?cs)
             = Inr [exampleContainer ''c1'' ''crate'' 1, exampleContainer ''c3'' ''safe'' (1 / 2)]"
    by (simp add: getGuaranteedContainers_def isGuaranteed_def rootTpl_def exampleConfig_def
        exampleContainer_def bareItem_def)
  from guaranteed_randomisable_partition [of "exampleConfig True" "Some ?cs" TypeError] g
  show ?thesis by auto
qed

subsection \<open>The shortfall of a group\<close>

lemma count_list_distinct:
  "distinct xs \<Longrightarrow> count_list xs k = (if k \<in> set xs then 1 else 0)"
  by (induction xs) auto

lemma keys_count: "count_list (keys pool) k = (if DAList.lookup pool k = None then 0 else 1)"
proof -
  have d: "distinct (keys pool)" by (simp add: keys_def)
  have "k \<in> set (keys pool) \<longleftrightarrow> DAList.lookup pool k \<noteq> None"
    by (simp add: keys_def DAList.lookup.rep_eq map_of_eq_None_iff)
  then show ?thesis using count_list_distinct [OF d, of k] by simp
qed

text \<open>
  C8. When the count chosen for a group exceeds the number of its candidate containers,
  \<^verbatim>\<open>getContainersByProbabilty\<close> returns the ids of the pool, each candidate id once and
  nothing else, it logs the shortfall with the wanted and the available count, at debug
  level, and it raises no error; the random source is not consulted.
\<close>

theorem getContainersByProbabilty_shortfall:
  assumes "chosenCount containerData > int (length (keys (containerIdsWithProbability containerData)))"
  shows "getContainersByProbabilty env groupId containerData w
           = (Inr (keys (containerIdsWithProbability containerData)),
              w\<lparr>logs := logs w @ [DebugGroupShortfall groupId (chosenCount containerData)
                   (length (keys (containerIdsWithProbability containerData)))]\<rparr>)
         \<and> severity (DebugGroupShortfall groupId (chosenCount containerData)
               (length (keys (containerIdsWithProbability containerData)))) = Debug
         \<and> (\<forall>k. count_list (keys (containerIdsWithProbability containerData)) k
                  = (if DAList.lookup (containerIdsWithProbability containerData) k = None
                     then 0 else 1))"
  using assms
  by (simp add: getContainersByProbabilty_def Let_def bnd_logger return_def keys_count)

theorem getContainersByProbabilty_shortfall_witness:
  "getContainersByProbabilty exampleEnv ''g1''
     \<lparr>containerIdsWithProbability = DAList.update ''c2'' (1 / 2) DAList.empty, chosenCount = 3\<rparr>
     (exampleWorld [])
   = (Inr [''c2''], (exampleWorld [])\<lparr>logs := [DebugGroupShortfall ''g1'' 3 1]\<rparr>)"
proof -
  let ?d = "\<lparr>containerIdsWithProbability = DAList.update ''c2'' (1 / 2) DAList.empty,
             chosenCount = 3\<rparr>"
  have k: "keys (containerIdsWithProbability ?d) = [''c2'']"
    by (simp add: keys_def DAList.update.rep_eq DAList.empty.rep_eq)
  have h: "chosenCount ?d > int (length (keys (containerIdsWithProbability ?d)))"
    unfolding k by simp
  from getContainersByProbabilty_shortfall [OF h, of exampleEnv "''g1''" "exampleWorld []"]
  show ?thesis unfolding k by (simp add: exampleWorld_def)
qed

subsection \<open>Loops\<close>

lemma bnd_assoc: "bnd (bnd m f) g = bnd m (\<lambda>x. bnd (f x) g)"
  by (rule ext) (simp add: bnd_def split: prod.splits sum.splits)

lemma bnd_InrE:
  assumes "bnd m f w = (Inr y, w')"
  obtains x w1 where "m w = (Inr x, w1)" and "f x w1 = (Inr y, w')"
  using assms by (auto simp: bnd_Inr)

lemma forEach_rel:
  assumes step: "\<And>x a w a' w'. body x a w = (Inr a', w') \<Longrightarrow> R a a'"
    and refl: "\<And>a. R a a"
    and trans: "\<And>a b c. R a b \<Longrightarrow> R b c \<Longrightarrow> R a c"
  shows "forEach xs a body w = (Inr a', w') \<Longrightarrow> R a a'"
proof (induction xs arbitrary: a w)
  case Nil
  then show ?case by (simp add: return_def refl)
next
  case (Cons x xs)
  from Cons.prems obtain b w1 where b: "body x a w = (Inr b, w1)"
    and rest: "forEach xs b body w1 = (Inr a', w')"
    by (auto simp: bnd_Inr)
  from step [OF b] Cons.IH [OF rest] show ?case by (rule trans)
qed

lemma addContainers_Nil:
  "addContainers env cfg sf ld ammo loc [] res = return res"
  by (simp add: addContainers_def)

lemma addContainers_Cons:
  "addContainers env cfg sf ld ammo loc (c # cs) res
     = bnd (addLootToContainer env cfg c sf ld ammo loc)
         (\<lambda>cw. addContainers env cfg sf ld ammo loc cs (res @ [template cw]))"
  by (simp add: addContainers_def bnd_assoc bnd_return)

text \<open>
  When the loop over a list of containers returns, it has appended one template for each
  container of the list, in order, and each is the template of that container as
  \<^verbatim>\<open>addLootToContainer\<close> returned it.
\<close>

lemma addContainers_Inr:
  "addContainers env cfg sf ld ammo loc cs res w = (Inr res', w') \<Longrightarrow>
     \<exists>ts. res' = res @ ts \<and>
       list_all2 (\<lambda>c t. \<exists>w1 w2 c'. addLootToContainer env cfg c sf ld ammo loc w1 = (Inr c', w2)
                          \<and> t = template c') cs ts"
proof (induction cs arbitrary: res w)
  case Nil
  then show ?case by (simp add: addContainers_Nil return_def)
next
  case (Cons c cs)
  from Cons.prems obtain cw w1
    where cw: "addLootToContainer env cfg c sf ld ammo loc w = (Inr cw, w1)"
      and rest: "addContainers env cfg sf ld ammo loc cs (res @ [template cw]) w1 = (Inr res', w')"
    by (auto simp: addContainers_Cons bnd_Inr)
  from Cons.IH [OF rest] obtain ts where ts: "res' = (res @ [template cw]) @ ts"
    and all: "list_all2 (\<lambda>c t. \<exists>w1 w2 c'. addLootToContainer env cfg c sf ld ammo loc w1 = (Inr c', w2)
                          \<and> t = template c') cs ts"
    by blast
  have "list_all2 (\<lambda>c t. \<exists>w1 w2 c'. addLootToContainer env cfg c sf ld ammo loc w1 = (Inr c', w2)
                          \<and> t = template c') (c # cs) (template cw # ts)"
    using cw all by auto
  then show ?case using ts by auto
qed

lemma addChosenContainers_prefix:
  assumes "addChosenContainers env cfg rs sf ld ammo loc gid data acc w = (Inr acc', w')"
  shows "prefix (fst acc) (fst acc')"
proof -
  let ?body = "\<lambda>chosenContainerId (result, staticContainerCount).
               case find (\<lambda>x. Id' (template x) = chosenContainerId) rs of
                 None \<Rightarrow>
                   bnd (logger DebugContainerNotFound)
                     (\<lambda>_. return (result, staticContainerCount))
               | Some containerObject \<Rightarrow>
                   bnd (addLootToContainer env cfg containerObject sf ld ammo loc)
                     (\<lambda>containerWithLoot.
                        return (result @ [template containerWithLoot],
                                staticContainerCount + (1::int)))"
  from assms obtain ids w1 where loop: "forEach ids acc ?body w1 = (Inr acc', w')"
    by (auto simp: addChosenContainers_def bnd_Inr)
  have step: "\<And>x a w a' w'. ?body x a w = (Inr a', w') \<Longrightarrow> prefix (fst a) (fst a')"
    by (auto simp: bnd_Inr return_Inr split: option.splits prod.splits)
  show ?thesis
    by (rule forEach_rel [where R = "\<lambda>a b. prefix (fst a) (fst b)", OF step _ _ loop])
      (auto intro: prefix_order.trans)
qed

lemma processGroup_prefix:
  assumes "processGroup env cfg rs sf ld ammo loc entry acc w = (Inr acc', w')"
  shows "prefix (fst acc) (fst acc')"
  using assms
  by (auto simp: processGroup_def bnd_Inr return_Inr split: prod.splits if_splits
      dest: addChosenContainers_prefix)

text \<open>
  The shape of every result of \<^verbatim>\<open>generateStaticContainers\<close>: the static weapons of the
  map, then the guaranteed containers, each filled, then the containers added after them.
\<close>

lemma generateStaticContainers_Inr:
  assumes run: "generateStaticContainers env cfg db lb ammo w = (Inr result, w')"
  shows "\<exists>cs g r gs rest.
      Option.bind (lootStaticContainers db (Name lb)) staticContainers = Some cs \<and>
      getGuaranteedContainers cfg (Some cs) = Inr g \<and>
      getRandomisableContainersOnMap cfg (Some cs) = Inr r \<and>
      list_all2 (\<lambda>c t. \<exists>w1 w2 c'.
          addLootToContainer env cfg c
            (Option.bind (lootStaticContainers db (Name lb)) staticForced)
            (lootStaticLoot db) ammo (toLowerCase (locId lb)) w1 = (Inr c', w2)
          \<and> t = template c') g gs \<and>
      result = (case Option.bind (lootStaticContainers db (Name lb)) staticWeapons of
                  None \<Rightarrow> [] | Some ws \<Rightarrow> ws) @ gs @ rest \<and>
      (\<not> enabled (containerRandomisationSettings cfg)
         \<or> maps' (containerRandomisationSettings cfg) (toLowerCase (locId lb)) \<noteq> Some True \<longrightarrow>
       list_all2 (\<lambda>c t. \<exists>w1 w2 c'.
          addLootToContainer env cfg c
            (Option.bind (lootStaticContainers db (Name lb)) staticForced)
            (lootStaticLoot db) ammo (toLowerCase (locId lb)) w1 = (Inr c', w2)
          \<and> t = template c') r rest)"
proof -
  let ?sf = "Option.bind (lootStaticContainers db (Name lb)) staticForced"
  let ?ws = "case Option.bind (lootStaticContainers db (Name lb)) staticWeapons of
                  None \<Rightarrow> [] | Some ws \<Rightarrow> ws"
  let ?all = "Option.bind (lootStaticContainers db (Name lb)) staticContainers"
  let ?loc = "toLowerCase (locId lb)"
  let ?dis = "\<not> enabled (containerRandomisationSettings cfg)
         \<or> maps' (containerRandomisationSettings cfg) ?loc \<noteq> Some True"
  from run obtain r g res1 w1 w2 w3 where
      r: "getRandomisableContainersOnMap cfg ?all = Inr r"
    and g: "getGuaranteedContainers cfg ?all = Inr g"
    and gs: "addContainers env cfg ?sf (lootStaticLoot db) ammo ?loc g ?ws w1 = (Inr res1, w2)"
    and tail:
      "(if ?dis then
        bnd (logger (DebugRandomisationDisabled (length r) (Name lb)))
          (\<lambda>_. addContainers env cfg ?sf (lootStaticLoot db) ammo ?loc r res1)
      else
        (case locationStatics db ?loc of
           None \<Rightarrow> throw TypeError
         | Some staticContainerGroupData \<Rightarrow>
             bnd (getGroupIdToContainerMappings env cfg staticContainerGroupData r)
               (\<lambda>mapping.
             bnd (forEach (DAList.impl_of mapping) (res1, int (length g))
                    (processGroup env cfg r ?sf (lootStaticLoot db) ammo ?loc))
               (\<lambda>(result', staticContainerCount).
             bnd (logger (SuccessContainersGenerated staticContainerCount))
               (\<lambda>_. return result'))))) w3 = (Inr result, w')"
    unfolding generateStaticContainers_def Let_def
    by (elim bnd_InrE) (auto simp: lift_Inr)
  from g obtain cs where cs: "?all = Some cs"
    by (cases ?all) (auto simp: getGuaranteedContainers_def)
  from addContainers_Inr [OF gs] obtain ts where res1: "res1 = ?ws @ ts"
    and ts: "list_all2 (\<lambda>c t. \<exists>w1 w2 c'.
          addLootToContainer env cfg c ?sf (lootStaticLoot db) ammo ?loc w1 = (Inr c', w2)
          \<and> t = template c') g ts"
    by blast
  show ?thesis
  proof (cases ?dis)
    case True
    with tail obtain w4 where
      "addContainers env cfg ?sf (lootStaticLoot db) ammo ?loc r res1 w4 = (Inr result, w')"
      by (auto simp: bnd_Inr)
    from addContainers_Inr [OF this] obtain rest where "result = res1 @ rest"
      and "list_all2 (\<lambda>c t. \<exists>w1 w2 c'.
          addLootToContainer env cfg c ?sf (lootStaticLoot db) ammo ?loc w1 = (Inr c', w2)
          \<and> t = template c') r rest"
      by blast
    then show ?thesis using r g cs ts res1 by auto
  next
    case False
    with tail obtain mapping n w4 w5 where
      loop: "forEach (DAList.impl_of mapping) (res1, int (length g))
               (processGroup env cfg r ?sf (lootStaticLoot db) ammo ?loc) w4
             = (Inr (result, n), w5)"
      by (auto simp: bnd_Inr return_Inr throw_Inr split: option.splits prod.splits)
    have "prefix (fst (res1, int (length g))) (fst (result, n))"
      by (rule forEach_rel [where R = "\<lambda>a b. prefix (fst a) (fst b)", OF _ _ _ loop])
        (auto intro: prefix_order.trans processGroup_prefix)
    then obtain rest where "result = res1 @ rest"
      by (auto simp: prefix_def)
    then show ?thesis using r g cs ts res1 False by auto
  qed
qed


subsection \<open>A map without a table of static containers\<close>

text \<open>
  C2. When the database has no static containers for the map, the pass logs the error,
  and the selection of the randomisable containers that follows reads the missing list:
  a type error leaves the pass, with the errors logged before it. The static weapons of
  the map, read the same way, are replaced by an empty list when they are missing.
\<close>

theorem generateStaticContainers_missing_table:
  assumes "Option.bind (lootStaticContainers db (Name lb)) staticContainers = None"
  shows "generateStaticContainers env cfg db lb ammo w
           = (Inl TypeError,
              w\<lparr>logs := logs w
                   @ (if Option.bind (lootStaticContainers db (Name lb)) staticWeapons = None
                      then [ErrNoStaticWeaponData (Name lb)] else [])
                   @ [ErrNoStaticContainerData (Name lb)]\<rparr>)"
  using assms
  by (simp add: generateStaticContainers_def Let_def bnd_logger bnd_return
      getRandomisableContainersOnMap_def bnd_lift_Inl throw_def)

theorem generateStaticContainers_missing_table_witness:
  "generateStaticContainers exampleEnv (exampleConfig True) (exampleDatabase [])
     \<lparr>Name = ''Nowhere'', locId = ''Nowhere''\<rparr> [] (exampleWorld [])
   = (Inl TypeError,
      (exampleWorld [])\<lparr>logs := [ErrNoStaticWeaponData ''Nowhere'',
                                 ErrNoStaticContainerData ''Nowhere'']\<rparr>)"
proof -
  have h: "Option.bind (lootStaticContainers (exampleDatabase [])
             (Name \<lparr>Name = ''Nowhere'', locId = ''Nowhere''\<rparr>)) staticContainers = None"
    by (simp add: exampleDatabase_def)
  from generateStaticContainers_missing_table [OF h, of exampleEnv "exampleConfig True" "[]"
      "exampleWorld []"]
  show ?thesis by (simp add: exampleDatabase_def exampleWorld_def)
qed

subsection \<open>Running the example\<close>

lemmas monad_defs = bnd_def return_def throw_def logger_def random_def randomE_def catch_def
  lift_def

lemmas static_defs = generateStaticContainers_def getRandomisableContainersOnMap_def
  getGuaranteedContainers_def isRandomisable_def isGuaranteed_def rootTpl_def addContainers_def
  addLootToContainer_def getContainerMapping_def chooseTpls_def
  getWeightedCountOfContainerItems_def getPossibleLootItemsForContainer_def
  getStaticLootMultiplerForLocation_def roundProduct_def first_def
  createStaticLootItem_def createStaticWeapon_def truthy_def spliceFirst_def
  processGroup_def addChosenContainers_def rollContainers_def getContainersByProbabilty_def
  getGroupIdToContainerMappings_def keys_def

lemmas dynamic_defs = generateDynamicLoot_def addForcedLoot_def forceSingleSpawn_def
  forceSpawn_def positionsOf_def setRoot_def chooseSpawnpoints_def classifySpawnpoints_def
  isBlacklisted_def dedupeByLocationId_def poolData_def getLooseLootMultiplerForLocation_def
  fillSpawnpoint_def spawnpointItemPool_def createDynamicLootItem_def
  reparentItemAndChildren_def jsGreater_def jsPlus_def

lemmas example_defs = exampleEnv_def exampleConfig_def exampleDatabase_def exampleWorld_def
  exampleContainer_def exampleLoot_def exampleItems_def examplePresets_def exampleReparent_def
  exampleTemplate_def bareItem_def withUniform_def withUniforms_def nextUniform_def
  drawSpec_def totalWeight_def removeAt_def findSlotSpec_def fillSpec_def fits_def cellFree_def
  exampleSpawnpoint_def exampleLooseLoot_def

lemmas alist_defs = DAList.update.rep_eq DAList.empty.rep_eq DAList.lookup.rep_eq

lemma Math_round_of_int: "Math_round (of_int n) = n"
  by (simp add: Math_round_def floor_eq_iff)

lemma Math_round_0: "Math_round 0 = 0"
  using Math_round_of_int [of 0] by simp

lemma Math_round_1: "Math_round 1 = 1"
  using Math_round_of_int [of 1] by simp

lemma Math_round_numeral: "Math_round (numeral k) = numeral k"
  using Math_round_of_int [of "numeral k"] by simp

lemma toLowerCase_Woods: "toLowerCase ''Woods'' = ''woods''"
  by code_simp

lemma toLowerCase_woods: "toLowerCase ''woods'' = ''woods''"
  by code_simp

lemma drawLoop_numeral:
  "drawLoop (numeral k) replacement locklist pool us
     = drawLoop (Suc (pred_numeral k)) replacement locklist pool us"
  by (simp add: numeral_eq_Suc)

lemmas eval_simps = Math_round_0 Math_round_1 Math_round_numeral toLowerCase_Woods
  toLowerCase_woods drawLoop_numeral

subsection \<open>Filling a container keeps what is there\<close>

lemma placeLoot_prefix:
  "placeLoot env cfg ammo pid tpls (cmap, failed, its) w = (Inr its', w') \<Longrightarrow> prefix its its'"
proof (induction tpls arbitrary: cmap failed its w)
  case Nil
  then show ?case by (simp add: return_def)
next
  case (Cons t tpls)
  from Cons.prems obtain ci :: IContainerItem and w1 where
    step: "(let result = findSlotForItem env cmap (width ci) (height ci)
          in
          if \<not> success result then
            (if failed \<ge> fitLootIntoContainerAttempts cfg then return its
             else placeLoot env cfg ammo pid tpls (cmap, failed + 1, its))
          else
            (case items ci of
               [] \<Rightarrow> throw TypeError
             | i # is \<Rightarrow>
                 placeLoot env cfg ammo pid tpls
                   (fillContainerMapWithItem env cmap (slot_x result) (slot_y result)
                      (width ci) (height ci) (rotation result),
                    failed,
                    its @ i\<lparr>slotId := Some ''main'',
                            location := Some (slot_x result, slot_y result,
                                              if rotation result then 1 else 0)\<rparr> # is))) w1
        = (Inr its', w')"
    by (auto simp: bnd_Inr)
  show ?case
  proof (cases "success (findSlotForItem env cmap (width ci) (height ci))")
    case False
    then show ?thesis using step Cons.IH
      by (auto simp: Let_def return_Inr split: if_splits)
  next
    case True
    then obtain i "is" where "items ci = i # is"
      using step by (cases "items ci") (auto simp: Let_def throw_Inr)
    with step True Cons.IH show ?thesis
      by (auto simp: Let_def dest!: append_prefixD)
  qed
qed

text \<open>
  A filled container is the container it was made from, with a new root id and with the
  placed items after its own items.
\<close>

lemma addLootToContainer_Inr:
  assumes "addLootToContainer env cfg c sf ld ammo loc w = (Inr c', w')"
  shows "\<exists>pid rootNode others placed.
           Items (template c) = rootNode # others \<and>
           c' = c\<lparr>template := (template c)\<lparr>Root := pid,
                   Items := rootNode\<lparr>item_id := pid\<rparr> # others @ placed\<rparr>\<rparr>"
proof (cases "Items (template c)")
  case Nil
  then show ?thesis using assms by (simp add: addLootToContainer_def throw_def)
next
  case (Cons rootNode others)
  from assms Cons obtain pid its cmap tpls w2 where
    its: "placeLoot env cfg ammo pid tpls (cmap, 0, rootNode\<lparr>item_id := pid\<rparr> # others) w2
            = (Inr its, w')"
    and c': "c' = c\<lparr>template := (template c)\<lparr>Root := pid, Items := its\<rparr>\<rparr>"
    by (auto simp: addLootToContainer_def bnd_Inr return_Inr split: prod.splits)
  from placeLoot_prefix [OF its] obtain placed where
    "its = (rootNode\<lparr>item_id := pid\<rparr> # others) @ placed"
    by (auto simp: prefix_def)
  then show ?thesis using Cons c' by auto
qed

lemma addLootToContainer_Id:
  assumes "addLootToContainer env cfg c sf ld ammo loc w = (Inr c', w')"
  shows "Id' (template c') = Id' (template c)"
  using addLootToContainer_Inr [OF assms] by auto

subsection \<open>Randomisation switched off\<close>

text \<open>
  C4. When the randomisation of containers is switched off, for all maps or for the map
  generated, every result of \<^verbatim>\<open>generateStaticContainers\<close> is the static weapons of the map,
  then every guaranteed container, filled, then every randomisable container, filled, in
  the order of the table and nothing else; the groups of the map are not read, so that
  the pass runs the same with any other groups.
\<close>

theorem randomisation_disabled_adds_all:
  assumes dis: "\<not> enabled (containerRandomisationSettings cfg)
         \<or> maps' (containerRandomisationSettings cfg) (toLowerCase (locId lb)) \<noteq> Some True"
  shows "(\<forall>result w'. generateStaticContainers env cfg db lb ammo w = (Inr result, w') \<longrightarrow>
      (\<exists>cs g r gs rs.
        Option.bind (lootStaticContainers db (Name lb)) staticContainers = Some cs \<and>
        getGuaranteedContainers cfg (Some cs) = Inr g \<and>
        getRandomisableContainersOnMap cfg (Some cs) = Inr r \<and>
        list_all2 (\<lambda>c t. \<exists>w1 w2 c'.
            addLootToContainer env cfg c
              (Option.bind (lootStaticContainers db (Name lb)) staticForced)
              (lootStaticLoot db) ammo (toLowerCase (locId lb)) w1 = (Inr c', w2)
            \<and> t = template c') g gs \<and>
        list_all2 (\<lambda>c t. \<exists>w1 w2 c'.
            addLootToContainer env cfg c
              (Option.bind (lootStaticContainers db (Name lb)) staticForced)
              (lootStaticLoot db) ammo (toLowerCase (locId lb)) w1 = (Inr c', w2)
            \<and> t = template c') r rs \<and>
        result = (case Option.bind (lootStaticContainers db (Name lb)) staticWeapons of
                    None \<Rightarrow> [] | Some ws \<Rightarrow> ws) @ gs @ rs))
    \<and> generateStaticContainers env cfg (db\<lparr>locationStatics := groups\<rparr>) lb ammo w
        = generateStaticContainers env cfg db lb ammo w"
proof (intro conjI allI impI)
  fix result w'
  assume "generateStaticContainers env cfg db lb ammo w = (Inr result, w')"
  from generateStaticContainers_Inr [OF this] dis
  show "\<exists>cs g r gs rs.
        Option.bind (lootStaticContainers db (Name lb)) staticContainers = Some cs \<and>
        getGuaranteedContainers cfg (Some cs) = Inr g \<and>
        getRandomisableContainersOnMap cfg (Some cs) = Inr r \<and>
        list_all2 (\<lambda>c t. \<exists>w1 w2 c'.
            addLootToContainer env cfg c
              (Option.bind (lootStaticContainers db (Name lb)) staticForced)
              (lootStaticLoot db) ammo (toLowerCase (locId lb)) w1 = (Inr c', w2)
            \<and> t = template c') g gs \<and>
        list_all2 (\<lambda>c t. \<exists>w1 w2 c'.
            addLootToContainer env cfg c
              (Option.bind (lootStaticContainers db (Name lb)) staticForced)
              (lootStaticLoot db) ammo (toLowerCase (locId lb)) w1 = (Inr c', w2)
            \<and> t = template c') r rs \<and>
        result = (case Option.bind (lootStaticContainers db (Name lb)) staticWeapons of
                    None \<Rightarrow> [] | Some ws \<Rightarrow> ws) @ gs @ rs"
    by blast
next
  show "generateStaticContainers env cfg (db\<lparr>locationStatics := groups\<rparr>) lb ammo w
        = generateStaticContainers env cfg db lb ammo w"
    using dis by (simp add: generateStaticContainers_def Let_def)
qed

theorem randomisation_disabled_adds_all_witness:
  "\<exists>result w'.
     generateStaticContainers exampleEnv (exampleConfig False)
       (exampleDatabase [exampleContainer ''c1'' ''crate'' 1,
                         exampleContainer ''c2'' ''crate'' (1 / 2),
                         exampleContainer ''c3'' ''safe'' (1 / 2)])
       \<lparr>Name = ''Woods'', locId = ''Woods''\<rparr> [] (exampleWorld []) = (Inr result, w')
     \<and> map Id' result = [''c1'', ''c3'', ''c2'']
     \<and> (\<exists>g r gs rs.
          getGuaranteedContainers (exampleConfig False)
            (Some [exampleContainer ''c1'' ''crate'' 1, exampleContainer ''c2'' ''crate'' (1 / 2),
                   exampleContainer ''c3'' ''safe'' (1 / 2)]) = Inr g \<and>
          getRandomisableContainersOnMap (exampleConfig False)
            (Some [exampleContainer ''c1'' ''crate'' 1, exampleContainer ''c2'' ''crate'' (1 / 2),
                   exampleContainer ''c3'' ''safe'' (1 / 2)]) = Inr r \<and>
          length gs = length g \<and> length rs = length r \<and> result = gs @ rs)"
proof -
  let ?cs = "[exampleContainer ''c1'' ''crate'' 1, exampleContainer ''c2'' ''crate'' (1 / 2),
              exampleContainer ''c3'' ''safe'' (1 / 2)]"
  let ?lb = "\<lparr>Name = ''Woods'', locId = ''Woods''\<rparr>"
  have dis: "\<not> enabled (containerRandomisationSettings (exampleConfig False))
         \<or> maps' (containerRandomisationSettings (exampleConfig False)) (toLowerCase (locId ?lb))
             \<noteq> Some True"
    by (simp add: exampleConfig_def)
  have "\<exists>result w'. generateStaticContainers exampleEnv (exampleConfig False)
         (exampleDatabase ?cs) ?lb [] (exampleWorld []) = (Inr result, w')
        \<and> map Id' result = [''c1'', ''c3'', ''c2'']"
    by (simp add: monad_defs static_defs example_defs eval_simps Let_def alist_defs)
  then obtain result w' where
    run: "generateStaticContainers exampleEnv (exampleConfig False)
         (exampleDatabase ?cs) ?lb [] (exampleWorld []) = (Inr result, w')"
    and ids: "map Id' result = [''c1'', ''c3'', ''c2'']"
    by (elim exE conjE) (rule that)
  have tab: "Option.bind (lootStaticContainers (exampleDatabase ?cs) (Name ?lb)) staticContainers
               = Some ?cs"
    and ws: "Option.bind (lootStaticContainers (exampleDatabase ?cs) (Name ?lb)) staticWeapons
               = Some []"
    by (simp_all add: exampleDatabase_def)
  from randomisation_disabled_adds_all [OF dis, of exampleEnv "exampleDatabase ?cs" "[]"
      "exampleWorld []" "Map.empty"] run
  obtain cs g r gs rs where
    "Option.bind (lootStaticContainers (exampleDatabase ?cs) (Name ?lb)) staticContainers = Some cs"
    "getGuaranteedContainers (exampleConfig False) (Some cs) = Inr g"
    "getRandomisableContainersOnMap (exampleConfig False) (Some cs) = Inr r"
    "length g = length gs" "length r = length rs"
    "result = (case Option.bind (lootStaticContainers (exampleDatabase ?cs) (Name ?lb)) staticWeapons
                of None \<Rightarrow> [] | Some ws \<Rightarrow> ws) @ gs @ rs"
    by (blast dest: list_all2_lengthD)
  then show ?thesis using run ids tab ws by auto
qed

subsection \<open>The spawn points chosen for loose loot\<close>

lemma classify_loop:
  "forEach sps (g0, a0)
     (\<lambda>spawnpoint (guaranteedLoosePoints, spawnpointArray).
          if isBlacklisted cfg loc spawnpoint then
            bnd (logger (DebugIgnoringLooseLoot (Id' (template spawnpoint))))
              (\<lambda>_. return (guaranteedLoosePoints, spawnpointArray))
          else if probability spawnpoint = 1 then
            return (guaranteedLoosePoints @ [spawnpoint], spawnpointArray)
          else
            return (guaranteedLoosePoints,
                    spawnpointArray @
                      [(Id' (template spawnpoint), probability spawnpoint, spawnpoint)])) w
   = (Inr (g0 @ filter (\<lambda>p. \<not> isBlacklisted cfg loc p \<and> probability p = 1) sps,
           a0 @ map (\<lambda>p. (Id' (template p), probability p, p))
                  (filter (\<lambda>p. \<not> isBlacklisted cfg loc p \<and> probability p \<noteq> 1) sps)),
      w\<lparr>logs := logs w @ map (\<lambda>p. DebugIgnoringLooseLoot (Id' (template p)))
                           (filter (isBlacklisted cfg loc) sps)\<rparr>)"
proof (induction sps arbitrary: g0 a0 w)
  case Nil
  then show ?case by (simp add: return_def)
next
  case (Cons p sps)
  show ?case
    by (simp add: bnd_assoc bnd_logger bnd_return Cons.IH)
qed

text \<open>
  The classification of the spawn points: the check of the blacklist comes first, so that
  the guaranteed points are the points of probability 1 that are not blacklisted, and the
  pool holds the other points that are not blacklisted.
\<close>

lemma classifySpawnpoints_eq:
  "classifySpawnpoints cfg loc sps w
   = (Inr (filter (\<lambda>p. \<not> isBlacklisted cfg loc p \<and> probability p = 1) sps,
           map (\<lambda>p. (Id' (template p), probability p, p))
             (filter (\<lambda>p. \<not> isBlacklisted cfg loc p \<and> probability p \<noteq> 1) sps)),
      w\<lparr>logs := logs w @ map (\<lambda>p. DebugIgnoringLooseLoot (Id' (template p)))
                           (filter (isBlacklisted cfg loc) sps)\<rparr>)"
  unfolding classifySpawnpoints_def using classify_loop [of sps "[]" "[]" cfg loc w] by simp

lemma poolData_Some:
  "poolData pool k = Some d \<Longrightarrow> \<exists>k' p. (k', p, d) \<in> set pool"
  by (induction pool) (auto simp: poolData_def split: if_splits)

lemma those_Some: "those xs = Some ys \<longleftrightarrow> xs = map Some ys"
  by (induction xs arbitrary: ys) (auto split: option.splits)

lemma set_update_subset: "set (AList.update k v al) \<subseteq> insert (k, v) (set al)"
  by (induction al) auto

lemma fold_update_inv:
  assumes "distinct (map fst m)" and "\<forall>e\<in>set m. locationId (snd e) = fst e"
  shows "distinct (map fst (foldl (\<lambda>m x. AList.update (locationId x) x m) m xs)) \<and>
         (\<forall>e\<in>set (foldl (\<lambda>m x. AList.update (locationId x) x m) m xs).
            locationId (snd e) = fst e) \<and>
         snd ` set (foldl (\<lambda>m x. AList.update (locationId x) x m) m xs)
           \<subseteq> snd ` set m \<union> set xs \<and>
         fst ` set (foldl (\<lambda>m x. AList.update (locationId x) x m) m xs)
           = fst ` set m \<union> locationId ` set xs"
  using assms
proof (induction xs arbitrary: m)
  case Nil
  then show ?case by simp
next
  case (Cons x xs)
  let ?m = "AList.update (locationId x) x m"
  have d: "distinct (map fst ?m)" using Cons.prems(1) by (simp add: distinct_update)
  have sub: "set ?m \<subseteq> insert (locationId x, x) (set m)" by (rule set_update_subset)
  have l: "\<forall>e\<in>set ?m. locationId (snd e) = fst e"
    using sub Cons.prems(2) by auto
  have dom: "fst ` set ?m = {locationId x} \<union> fst ` set m" by (rule dom_update)
  have ran: "snd ` set ?m \<subseteq> insert x (snd ` set m)" using sub by force
  let ?f = "foldl (\<lambda>m x. AList.update (locationId x) x m) ?m xs"
  from Cons.IH [OF d l]
  have 1: "distinct (map fst ?f)" and 2: "\<forall>e\<in>set ?f. locationId (snd e) = fst e"
    and 3: "snd ` set ?f \<subseteq> snd ` set ?m \<union> set xs"
    and 4: "fst ` set ?f = fst ` set ?m \<union> locationId ` set xs"
    by blast+
  have c3: "snd ` set ?f \<subseteq> snd ` set m \<union> set (x # xs)"
    using 3 ran by auto
  have c4: "fst ` set ?f = fst ` set m \<union> locationId ` set (x # xs)"
    unfolding 4 dom by auto
  show ?case using 1 2 c3 c4 by simp
qed

text \<open>
  Removing duplicate location ids keeps spawn points of the list, one for each location
  id of the list, and keeps a spawn point that shares its location id with no other.
\<close>

lemma dedupe_props:
  "set (dedupeByLocationId xs) \<subseteq> set xs \<and>
   distinct (map locationId (dedupeByLocationId xs)) \<and>
   locationId ` set (dedupeByLocationId xs) = locationId ` set xs"
proof -
  let ?m = "foldl (\<lambda>m x. AList.update (locationId x) x m) [] xs"
  from fold_update_inv [of "[]" xs]
  have d: "distinct (map fst ?m)" and l: "\<forall>e\<in>set ?m. locationId (snd e) = fst e"
    and r: "snd ` set ?m \<subseteq> set xs" and k: "fst ` set ?m = locationId ` set xs"
    by simp_all
  have eq: "map locationId (map snd ?m) = map fst ?m"
    using l by simp
  have img: "locationId ` set (map snd ?m) = fst ` set ?m"
    using l by force
  have "set (map snd ?m) \<subseteq> set xs" using r by simp
  moreover have "distinct (map locationId (map snd ?m))" unfolding eq by (rule d)
  moreover have "locationId ` set (map snd ?m) = locationId ` set xs" unfolding img by (rule k)
  ultimately show ?thesis unfolding dedupeByLocationId_def by blast
qed

lemma dedupe_keeps_unique:
  assumes "x \<in> set xs" and "\<forall>y\<in>set xs. locationId y = locationId x \<longrightarrow> y = x"
  shows "x \<in> set (dedupeByLocationId xs)"
proof -
  from dedupe_props [of xs]
  have k: "locationId ` set (dedupeByLocationId xs) = locationId ` set xs"
    and sub: "set (dedupeByLocationId xs) \<subseteq> set xs" by simp_all
  have "locationId x \<in> locationId ` set xs" using assms(1) by (rule imageI)
  then have "locationId x \<in> locationId ` set (dedupeByLocationId xs)" unfolding k .
  then obtain y where y: "y \<in> set (dedupeByLocationId xs)" and ly: "locationId x = locationId y"
    by (rule imageE)
  from y sub have "y \<in> set xs" by (rule subsetD [rotated])
  with assms(2) ly have "y = x" by simp
  with y show ?thesis by simp
qed

text \<open>
  What \<^verbatim>\<open>generateDynamicLoot\<close> chooses, when the choice returns: the guaranteed points
  are the points of probability 1 off the blacklist, and the chosen points are what
  remains, after the removal of duplicate location ids, of the guaranteed points followed
  by points of the pool.
\<close>

lemma chooseSpawnpoints_eq:
  "chooseSpawnpoints env cfg d loc w =
     (case randn env (mean (spawnpointCount d)) (std (spawnpointCount d)) (rnd w) of
        (x, r1) \<Rightarrow>
          (case draw env
                  (map (\<lambda>(k, p, _). (k, p))
                     (map (\<lambda>p. (Id' (template p), probability p, p))
                        (filter (\<lambda>p. \<not> isBlacklisted cfg loc p \<and> probability p \<noteq> 1)
                           (spawnpoints d))))
                  (Arg (roundProduct (getLooseLootMultiplerForLocation cfg loc) (Some x)))
                  (Arg False) Omitted r1 of
             (drawn, r2) \<Rightarrow>
               (case those (map Some (filter (\<lambda>p. \<not> isBlacklisted cfg loc p \<and> probability p = 1)
                                        (spawnpoints d))
                            @ map (poolData (map (\<lambda>p. (Id' (template p), probability p, p))
                                     (filter (\<lambda>p. \<not> isBlacklisted cfg loc p \<and> probability p \<noteq> 1)
                                        (spawnpoints d)))) drawn) of
                  None \<Rightarrow> Inl TypeError
                | Some cs \<Rightarrow>
                    Inr (roundProduct (getLooseLootMultiplerForLocation cfg loc) (Some x),
                         filter (\<lambda>p. \<not> isBlacklisted cfg loc p \<and> probability p = 1)
                           (spawnpoints d),
                         dedupeByLocationId cs),
                w\<lparr>rnd := r2,
                   logs := logs w @ map (\<lambda>p. DebugIgnoringLooseLoot (Id' (template p)))
                                      (filter (isBlacklisted cfg loc) (spawnpoints d))\<rparr>)))"
  by (simp add: chooseSpawnpoints_def Let_def bnd_random bnd_def classifySpawnpoints_eq
      return_def throw_def random_def split: prod.splits option.splits)

lemma chooseSpawnpoints_Inr:
  assumes "chooseSpawnpoints env cfg d loc w = (Inr (n, g, chosen), w')"
  shows "g = filter (\<lambda>p. \<not> isBlacklisted cfg loc p \<and> probability p = 1) (spawnpoints d) \<and>
         (\<exists>ds. set ds \<subseteq> {p \<in> set (spawnpoints d). \<not> isBlacklisted cfg loc p \<and> probability p \<noteq> 1}
               \<and> chosen = dedupeByLocationId (g @ ds))"
proof -
  let ?g = "filter (\<lambda>p. \<not> isBlacklisted cfg loc p \<and> probability p = 1) (spawnpoints d)"
  let ?arr = "map (\<lambda>p. (Id' (template p), probability p, p))
             (filter (\<lambda>p. \<not> isBlacklisted cfg loc p \<and> probability p \<noteq> 1) (spawnpoints d))"
  from assms [unfolded chooseSpawnpoints_eq] obtain drawn cs where g: "g = ?g"
    and cs: "those (map Some ?g @ map (poolData ?arr) drawn) = Some cs"
    and chosen: "chosen = dedupeByLocationId cs"
    by (auto split: prod.splits option.splits)
  from cs have "map Some ?g @ map (poolData ?arr) drawn = map Some cs"
    by (simp add: those_Some)
  then obtain us ds where 1: "cs = us @ ds" and 2: "map Some ?g = map Some us"
    and pd: "map (poolData ?arr) drawn = map Some ds"
    by (auto simp: append_eq_map_conv)
  from 2 have "us = ?g" by (simp add: inj_map_eq_map)
  with 1 have ds: "cs = ?g @ ds" by simp
  have "set ds \<subseteq> {p \<in> set (spawnpoints d). \<not> isBlacklisted cfg loc p \<and> probability p \<noteq> 1}"
  proof
    fix p assume "p \<in> set ds"
    then have "Some p \<in> set (map (poolData ?arr) drawn)" unfolding pd by simp
    then obtain k where "poolData ?arr k = Some p" by auto
    from poolData_Some [OF this] show
      "p \<in> {p \<in> set (spawnpoints d). \<not> isBlacklisted cfg loc p \<and> probability p \<noteq> 1}"
      by auto
  qed
  then show ?thesis using g ds chosen by blast
qed

subsection \<open>Guaranteed containers and guaranteed spawn points\<close>

lemma isGuaranteed_True:
  assumes "probability c = 1 \<or> IsAlwaysSpawn (template c)
           \<or> (\<exists>i is. Items (template c) = i # is
                 \<and> tpl i \<in> set (containerTypesToNotRandomise (containerRandomisationSettings cfg)))"
  shows "isGuaranteed cfg c = Inr True"
  using assms by (auto simp: isGuaranteed_def rootTpl_def)

text \<open>
  C1, as amended. Whatever the random source does: when \<^verbatim>\<open>generateStaticContainers\<close>
  returns, each container of the table that has probability 1, or is flagged to spawn
  always, or whose type is exempt from randomisation, is in the result, filled by
  \<^verbatim>\<open>addLootToContainer\<close> and under its id. And when \<^verbatim>\<open>generateDynamicLoot\<close> has chosen its
  spawn points, each spawn point of probability 1 that is not blacklisted is among the
  guaranteed points, its location id is the location id of a chosen point, and it is a
  chosen point itself when no other spawn point of the table has its location id.
\<close>

theorem guaranteed_inclusion:
  "(\<forall>result w' cs c.
      generateStaticContainers env cfg db lb ammo w = (Inr result, w') \<longrightarrow>
      Option.bind (lootStaticContainers db (Name lb)) staticContainers = Some cs \<longrightarrow>
      c \<in> set cs \<longrightarrow>
      (probability c = 1 \<or> IsAlwaysSpawn (template c)
         \<or> (\<exists>i is. Items (template c) = i # is
               \<and> tpl i \<in> set (containerTypesToNotRandomise (containerRandomisationSettings cfg)))) \<longrightarrow>
      (\<exists>t\<in>set result. \<exists>w1 w2 c'.
          addLootToContainer env cfg c
            (Option.bind (lootStaticContainers db (Name lb)) staticForced)
            (lootStaticLoot db) ammo (toLowerCase (locId lb)) w1 = (Inr c', w2)
          \<and> t = template c' \<and> Id' t = Id' (template c)))
   \<and> (\<forall>n g chosen v' p.
        chooseSpawnpoints env cfg d locationName v = (Inr (n, g, chosen), v') \<longrightarrow>
        p \<in> set (spawnpoints d) \<longrightarrow> probability p = 1 \<longrightarrow>
        \<not> isBlacklisted cfg locationName p \<longrightarrow>
        p \<in> set g \<and> (\<exists>q\<in>set chosen. locationId q = locationId p)
        \<and> ((\<forall>q\<in>set (spawnpoints d). locationId q = locationId p \<longrightarrow> q = p)
             \<longrightarrow> p \<in> set chosen))"
proof (rule conjI)
  show "\<forall>result w' cs c.
      generateStaticContainers env cfg db lb ammo w = (Inr result, w') \<longrightarrow>
      Option.bind (lootStaticContainers db (Name lb)) staticContainers = Some cs \<longrightarrow>
      c \<in> set cs \<longrightarrow>
      (probability c = 1 \<or> IsAlwaysSpawn (template c)
         \<or> (\<exists>i is. Items (template c) = i # is
               \<and> tpl i \<in> set (containerTypesToNotRandomise (containerRandomisationSettings cfg)))) \<longrightarrow>
      (\<exists>t\<in>set result. \<exists>w1 w2 c'.
          addLootToContainer env cfg c
            (Option.bind (lootStaticContainers db (Name lb)) staticForced)
            (lootStaticLoot db) ammo (toLowerCase (locId lb)) w1 = (Inr c', w2)
          \<and> t = template c' \<and> Id' t = Id' (template c))"
  proof (intro allI impI)
  fix result w' cs c
  assume run: "generateStaticContainers env cfg db lb ammo w = (Inr result, w')"
    and tab: "Option.bind (lootStaticContainers db (Name lb)) staticContainers = Some cs"
    and c: "c \<in> set cs"
    and gu: "probability c = 1 \<or> IsAlwaysSpawn (template c)
         \<or> (\<exists>i is. Items (template c) = i # is
               \<and> tpl i \<in> set (containerTypesToNotRandomise (containerRandomisationSettings cfg)))"
  let ?F = "\<lambda>c t. \<exists>w1 w2 c'.
          addLootToContainer env cfg c
            (Option.bind (lootStaticContainers db (Name lb)) staticForced)
            (lootStaticLoot db) ammo (toLowerCase (locId lb)) w1 = (Inr c', w2)
          \<and> t = template c'"
  from generateStaticContainers_Inr [OF run] tab obtain g gs rest where
    g: "getGuaranteedContainers cfg (Some cs) = Inr g"
    and all: "list_all2 ?F g gs"
    and res: "result = (case Option.bind (lootStaticContainers db (Name lb)) staticWeapons of
                  None \<Rightarrow> [] | Some ws \<Rightarrow> ws) @ gs @ rest"
    by auto
  from g have "g = filter (\<lambda>x. isGuaranteed cfg x = Inr True) cs"
    by (simp add: getGuaranteedContainers_def filterE_Inr)
  with c isGuaranteed_True [OF gu] have "c \<in> set g" by simp
  then obtain k where k: "k < length g" and ck: "g ! k = c"
    by (auto simp: in_set_conv_nth)
  from all k have len: "k < length gs" and "?F (g ! k) (gs ! k)"
    by (auto simp: list_all2_conv_all_nth)
  then obtain w1 w2 c' where
    fill: "addLootToContainer env cfg c
            (Option.bind (lootStaticContainers db (Name lb)) staticForced)
            (lootStaticLoot db) ammo (toLowerCase (locId lb)) w1 = (Inr c', w2)"
    and t: "gs ! k = template c'"
    unfolding ck by blast
  have "gs ! k \<in> set result" using len res by simp
  moreover have "Id' (gs ! k) = Id' (template c)"
    unfolding t by (rule addLootToContainer_Id [OF fill])
  ultimately show "\<exists>t\<in>set result. \<exists>w1 w2 c'.
          addLootToContainer env cfg c
            (Option.bind (lootStaticContainers db (Name lb)) staticForced)
            (lootStaticLoot db) ammo (toLowerCase (locId lb)) w1 = (Inr c', w2)
          \<and> t = template c' \<and> Id' t = Id' (template c)"
    using fill t by blast
  qed
next
  show "\<forall>n g chosen v' p.
        chooseSpawnpoints env cfg d locationName v = (Inr (n, g, chosen), v') \<longrightarrow>
        p \<in> set (spawnpoints d) \<longrightarrow> probability p = 1 \<longrightarrow>
        \<not> isBlacklisted cfg locationName p \<longrightarrow>
        p \<in> set g \<and> (\<exists>q\<in>set chosen. locationId q = locationId p)
        \<and> ((\<forall>q\<in>set (spawnpoints d). locationId q = locationId p \<longrightarrow> q = p)
             \<longrightarrow> p \<in> set chosen)"
  proof (intro allI impI)
  fix n g chosen v' p
  assume run: "chooseSpawnpoints env cfg d locationName v = (Inr (n, g, chosen), v')"
    and p: "p \<in> set (spawnpoints d)" and one: "probability p = 1"
    and nb: "\<not> isBlacklisted cfg locationName p"
  from chooseSpawnpoints_Inr [OF run] obtain ds where
    g: "g = filter (\<lambda>p. \<not> isBlacklisted cfg locationName p \<and> probability p = 1) (spawnpoints d)"
    and ds: "set ds \<subseteq> {p \<in> set (spawnpoints d).
                         \<not> isBlacklisted cfg locationName p \<and> probability p \<noteq> 1}"
    and chosen: "chosen = dedupeByLocationId (g @ ds)"
    by blast
  have pg: "p \<in> set g" using g p one nb by simp
  then have pin: "p \<in> set (g @ ds)" by simp
  from dedupe_props [of "g @ ds"]
  have k: "locationId ` set chosen = locationId ` set (g @ ds)" unfolding chosen by simp
  have "locationId p \<in> locationId ` set (g @ ds)" using pin by (rule imageI)
  then have "locationId p \<in> locationId ` set chosen" unfolding k .
  then have ex: "\<exists>q\<in>set chosen. locationId q = locationId p" by force
  have sub: "set (g @ ds) \<subseteq> set (spawnpoints d)" using g ds by auto
  have uniq: "p \<in> set chosen"
    if u: "\<forall>q\<in>set (spawnpoints d). locationId q = locationId p \<longrightarrow> q = p"
  proof -
    have "\<forall>y\<in>set (g @ ds). locationId y = locationId p \<longrightarrow> y = p"
      using u sub by blast
    from dedupe_keeps_unique [OF pin this] show ?thesis unfolding chosen .
  qed
  show "p \<in> set g \<and> (\<exists>q\<in>set chosen. locationId q = locationId p)
        \<and> ((\<forall>q\<in>set (spawnpoints d). locationId q = locationId p \<longrightarrow> q = p)
             \<longrightarrow> p \<in> set chosen)"
    using pg ex uniq by blast
  qed
qed

text \<open>
  The claim as it stands fails on a blacklisted spawn point of probability 1: it is not
  chosen, and the generated loot is empty.
\<close>

theorem guaranteed_inclusion_counterexample:
  "probability (exampleSpawnpoint ''closed'' ''l1'' 1) = 1
   \<and> chooseSpawnpoints exampleEnv (exampleConfig True)
       (exampleLooseLoot [exampleSpawnpoint ''closed'' ''l1'' 1]) ''woods'' (exampleWorld [])
     = (Inr (JSInt 1, [], []), (exampleWorld [])\<lparr>logs := [DebugIgnoringLooseLoot ''closed'']\<rparr>)
   \<and> fst (generateDynamicLoot exampleEnv (exampleConfig True)
       (exampleLooseLoot [exampleSpawnpoint ''closed'' ''l1'' 1]) [] ''woods'' (exampleWorld []))
     = Inr []"
  by (simp add: monad_defs dynamic_defs example_defs static_defs eval_simps Let_def)

theorem guaranteed_inclusion_witness:
  "(\<exists>result w'.
      generateStaticContainers exampleEnv (exampleConfig True)
        (exampleDatabase [exampleContainer ''c1'' ''crate'' 1,
                          exampleContainer ''c2'' ''crate'' (1 / 2)])
        \<lparr>Name = ''Woods'', locId = ''Woods''\<rparr> [] (exampleWorld [1 / 2, 1 / 2]) = (Inr result, w')
      \<and> map Id' result = [''c1'']
      \<and> (\<exists>t\<in>set result. Id' t = Id' (template (exampleContainer ''c1'' ''crate'' 1))))
   \<and> (\<exists>n g chosen v'.
        chooseSpawnpoints exampleEnv (exampleConfig True)
          (exampleLooseLoot [exampleSpawnpoint ''closed'' ''l1'' 1,
                             exampleSpawnpoint ''open'' ''l2'' 1]) ''woods'' (exampleWorld [])
          = (Inr (n, g, chosen), v')
        \<and> exampleSpawnpoint ''open'' ''l2'' 1 \<in> set chosen)"
proof -
  let ?cs = "[exampleContainer ''c1'' ''crate'' 1, exampleContainer ''c2'' ''crate'' (1 / 2)]"
  let ?lb = "\<lparr>Name = ''Woods'', locId = ''Woods''\<rparr>"
  let ?d = "exampleLooseLoot [exampleSpawnpoint ''closed'' ''l1'' 1,
                               exampleSpawnpoint ''open'' ''l2'' 1]"
  let ?p = "exampleSpawnpoint ''open'' ''l2'' 1"
  have "\<exists>result w'. generateStaticContainers exampleEnv (exampleConfig True)
         (exampleDatabase ?cs) ?lb [] (exampleWorld [1 / 2, 1 / 2]) = (Inr result, w')
        \<and> map Id' result = [''c1'']"
    by (simp add: monad_defs static_defs example_defs eval_simps Let_def alist_defs)
  then obtain result w' where
    run: "generateStaticContainers exampleEnv (exampleConfig True)
         (exampleDatabase ?cs) ?lb [] (exampleWorld [1 / 2, 1 / 2]) = (Inr result, w')"
    and ids: "map Id' result = [''c1'']"
    by (elim exE conjE) (rule that)
  have tab: "Option.bind (lootStaticContainers (exampleDatabase ?cs) (Name ?lb)) staticContainers
               = Some ?cs"
    by (simp add: exampleDatabase_def)
  have c: "exampleContainer ''c1'' ''crate'' 1 \<in> set ?cs" by simp
  have gu: "probability (exampleContainer ''c1'' ''crate'' 1) = 1
            \<or> IsAlwaysSpawn (template (exampleContainer ''c1'' ''crate'' 1))
            \<or> (\<exists>i is. Items (template (exampleContainer ''c1'' ''crate'' 1)) = i # is
                  \<and> tpl i \<in> set (containerTypesToNotRandomise
                                    (containerRandomisationSettings (exampleConfig True))))"
    by (simp add: exampleContainer_def)
  have "\<exists>n g chosen v'. chooseSpawnpoints exampleEnv (exampleConfig True) ?d ''woods''
          (exampleWorld []) = (Inr (n, g, chosen), v')"
    by (simp add: monad_defs dynamic_defs example_defs roundProduct_def eval_simps Let_def)
  then obtain n g chosen v' where
    ch: "chooseSpawnpoints exampleEnv (exampleConfig True) ?d ''woods'' (exampleWorld [])
          = (Inr (n, g, chosen), v')"
    by (elim exE) (rule that)
  have p: "?p \<in> set (spawnpoints ?d)" by (simp add: exampleLooseLoot_def)
  have one: "probability ?p = 1" by (simp add: exampleSpawnpoint_def)
  have nb: "\<not> isBlacklisted (exampleConfig True) ''woods'' ?p"
    by (simp add: isBlacklisted_def exampleConfig_def exampleSpawnpoint_def)
  have u: "\<forall>q\<in>set (spawnpoints ?d). locationId q = locationId ?p \<longrightarrow> q = ?p"
    by (simp add: exampleLooseLoot_def exampleSpawnpoint_def)
  note inst = guaranteed_inclusion [of exampleEnv "exampleConfig True" "exampleDatabase ?cs" ?lb
      "[]" "exampleWorld [1 / 2, 1 / 2]" ?d "''woods''" "exampleWorld []"]
  from inst run tab c gu
  have "\<exists>t\<in>set result. Id' t = Id' (template (exampleContainer ''c1'' ''crate'' 1))"
    by blast
  moreover from inst ch p one nb u have "?p \<in> set chosen" by blast
  ultimately show ?thesis using run ids ch by (intro conjI exI) assumption+
qed

subsection \<open>The blacklist of loose loot\<close>

lemma fillSpawnpoint_Inr:
  assumes "fillSpawnpoint env cfg ammo q loot w = (Inr loot', w')"
  shows "\<exists>t. loot' = loot @ [t] \<and> Id' t = Id' (template q)"
proof -
  from assms obtain ci :: IContainerItem and w3 where
    r: "(case items ci of
            [] \<Rightarrow> throw TypeError
          | i # _ \<Rightarrow>
              return (loot @ [(template q)\<lparr>Root := item_id i, Items := items ci\<rparr>])) w3
        = (Inr loot', w')"
    unfolding fillSpawnpoint_def by (elim bnd_InrE) (rule that)
  then show ?thesis
    by (cases "items ci") (auto simp: throw_Inr return_Inr)
qed

lemma fill_loop:
  "forEach chosen loot (fillSpawnpoint env cfg ammo) w = (Inr loot', w') \<Longrightarrow>
     \<exists>filled. loot' = loot @ filled \<and> map Id' filled = map (\<lambda>q. Id' (template q)) chosen"
proof (induction chosen arbitrary: loot w)
  case Nil
  then show ?case by (simp add: return_def)
next
  case (Cons q chosen)
  from Cons.prems obtain l1 w1 where
    one: "fillSpawnpoint env cfg ammo q loot w = (Inr l1, w1)"
    and rest: "forEach chosen l1 (fillSpawnpoint env cfg ammo) w1 = (Inr loot', w')"
    by (auto simp: bnd_Inr)
  from fillSpawnpoint_Inr [OF one] obtain t where t: "l1 = loot @ [t]"
    and it: "Id' t = Id' (template q)" by blast
  from Cons.IH [OF rest] obtain filled where f: "loot' = l1 @ filled"
    and ids: "map Id' filled = map (\<lambda>q. Id' (template q)) chosen" by blast
  have "loot' = loot @ (t # filled)" using f t by simp
  moreover have "map Id' (t # filled) = map (\<lambda>q. Id' (template q)) (q # chosen)"
    using it ids by simp
  ultimately show ?case by blast
qed

text \<open>
  The loot of a map, when the pass returns: the forced loot, then one template for each
  chosen spawn point, in order and under the id of the spawn point.
\<close>

lemma generateDynamicLoot_Inr:
  assumes "generateDynamicLoot env cfg d ammo loc w = (Inr loot, w')"
  shows "\<exists>forced n g chosen filled w1 w2.
           addForcedLoot env cfg [] (spawnpointsForced d) loc w = (Inr forced, w1) \<and>
           chooseSpawnpoints env cfg d loc w1 = (Inr (n, g, chosen), w2) \<and>
           loot = forced @ filled \<and>
           map Id' filled = map (\<lambda>q. Id' (template q)) chosen"
proof -
  from assms obtain forced n g chosen w1 w2 w3 where
    f: "addForcedLoot env cfg [] (spawnpointsForced d) loc w = (Inr forced, w1)"
    and c: "chooseSpawnpoints env cfg d loc w1 = (Inr (n, g, chosen), w2)"
    and l: "forEach chosen forced (fillSpawnpoint env cfg ammo) w3 = (Inr loot, w')"
    by (auto simp: generateDynamicLoot_def bnd_Inr split: prod.splits)
  from fill_loop [OF l] f c show ?thesis by blast
qed

text \<open>
  C10. When \<^verbatim>\<open>generateDynamicLoot\<close> returns, a spawn point whose template id is on the
  blacklist of the map is, whatever its probability and so also at probability 1, neither
  a guaranteed point nor a chosen point, and no template that the pass has made from a
  spawn point has its id: the loot is the forced loot followed by the templates of the
  chosen spawn points.
\<close>

theorem blacklist_before_guaranteed:
  assumes run: "generateDynamicLoot env cfg d ammo locationName w = (Inr loot, w')"
    and p: "p \<in> set (spawnpoints d)"
    and bl: "isBlacklisted cfg locationName p"
  shows "\<exists>forced n g chosen filled w1 w2.
           addForcedLoot env cfg [] (spawnpointsForced d) locationName w = (Inr forced, w1) \<and>
           chooseSpawnpoints env cfg d locationName w1 = (Inr (n, g, chosen), w2) \<and>
           loot = forced @ filled \<and>
           map Id' filled = map (\<lambda>q. Id' (template q)) chosen \<and>
           p \<notin> set g \<and> p \<notin> set chosen \<and> Id' (template p) \<notin> set (map Id' filled)"
proof -
  from generateDynamicLoot_Inr [OF run] obtain forced n g chosen filled w1 w2 where
    f: "addForcedLoot env cfg [] (spawnpointsForced d) locationName w = (Inr forced, w1)"
    and c: "chooseSpawnpoints env cfg d locationName w1 = (Inr (n, g, chosen), w2)"
    and l: "loot = forced @ filled"
    and ids: "map Id' filled = map (\<lambda>q. Id' (template q)) chosen"
    by blast
  from chooseSpawnpoints_Inr [OF c] obtain ds where
    g: "g = filter (\<lambda>p. \<not> isBlacklisted cfg locationName p \<and> probability p = 1) (spawnpoints d)"
    and ds: "set ds \<subseteq> {p \<in> set (spawnpoints d).
                         \<not> isBlacklisted cfg locationName p \<and> probability p \<noteq> 1}"
    and chosen: "chosen = dedupeByLocationId (g @ ds)"
    by blast
  have nb: "\<forall>q\<in>set (g @ ds). \<not> isBlacklisted cfg locationName q"
    using g ds by auto
  have sub: "set chosen \<subseteq> set (g @ ds)"
    unfolding chosen using dedupe_props [of "g @ ds"] by blast
  have nbc: "\<forall>q\<in>set chosen. \<not> isBlacklisted cfg locationName q"
    using nb sub by blast
  have pg: "p \<notin> set g" using g bl by simp
  have pc: "p \<notin> set chosen" using nbc bl by blast
  have "Id' (template p) \<notin> set (map (\<lambda>q. Id' (template q)) chosen)"
  proof
    assume "Id' (template p) \<in> set (map (\<lambda>q. Id' (template q)) chosen)"
    then obtain q where q: "q \<in> set chosen" and "Id' (template q) = Id' (template p)"
      by auto
    then have "isBlacklisted cfg locationName q"
      using bl by (auto simp: isBlacklisted_def split: option.splits)
    with nbc q show False by blast
  qed
  then have pid: "Id' (template p) \<notin> set (map Id' filled)" unfolding ids .
  from f c l ids pg pc pid show ?thesis by blast
qed

theorem blacklist_before_guaranteed_witness:
  "\<exists>loot w'.
     generateDynamicLoot exampleEnv (exampleConfig True)
       (exampleLooseLoot [exampleSpawnpoint ''closed'' ''l1'' 1,
                          exampleSpawnpoint ''open'' ''l2'' 1]) [] ''woods'' (exampleWorld [])
       = (Inr loot, w')
     \<and> probability (exampleSpawnpoint ''closed'' ''l1'' 1) = 1
     \<and> map Id' loot = [''open'']
     \<and> (\<exists>forced filled. loot = forced @ filled \<and> ''closed'' \<notin> set (map Id' filled))"
proof -
  let ?d = "exampleLooseLoot [exampleSpawnpoint ''closed'' ''l1'' 1,
                               exampleSpawnpoint ''open'' ''l2'' 1]"
  let ?p = "exampleSpawnpoint ''closed'' ''l1'' 1"
  have "\<exists>loot w'. generateDynamicLoot exampleEnv (exampleConfig True) ?d [] ''woods''
          (exampleWorld []) = (Inr loot, w') \<and> map Id' loot = [''open'']"
    by (simp add: monad_defs dynamic_defs example_defs static_defs eval_simps Let_def)
  then obtain loot w' where
    run: "generateDynamicLoot exampleEnv (exampleConfig True) ?d [] ''woods'' (exampleWorld [])
            = (Inr loot, w')"
    and ids: "map Id' loot = [''open'']"
    by (elim exE conjE) (rule that)
  have p: "?p \<in> set (spawnpoints ?d)" by (simp add: exampleLooseLoot_def)
  have bl: "isBlacklisted (exampleConfig True) ''woods'' ?p"
    by (simp add: isBlacklisted_def exampleConfig_def exampleSpawnpoint_def)
  have one: "probability ?p = 1" by (simp add: exampleSpawnpoint_def)
  have i: "Id' (template ?p) = ''closed''" by (simp add: exampleSpawnpoint_def)
  from blacklist_before_guaranteed [OF run p bl] obtain forced filled where
    "loot = forced @ filled" and "Id' (template ?p) \<notin> set (map Id' filled)"
    by (elim exE conjE) (rule that)
  then have ex: "\<exists>forced filled. loot = forced @ filled \<and> ''closed'' \<notin> set (map Id' filled)"
    unfolding i by (intro exI conjI) assumption+
  show ?thesis
    by (rule exI [of _ loot], rule exI [of _ w'], intro conjI) (fact run one ids ex)+
qed

end
